theory Spec2Isabelle
  imports Complex_Main
begin

section \<open>Conventions of the embedding\<close>

text \<open>
  The repository is a Python motor-control stack (plant model, FOC controller, flux
  weakening, disturbance rejection, recursive-least-squares identification).  Every class
  becomes a record of the attributes its methods assign, every method a function that takes
  the object and returns the updated object together with what the method returns.

  Python and numpy floats are modelled as real numbers: rounding and overflow are outside
  the model, with one exception.  The plant wraps its angle with the float operator \<open>%\<close>,
  whose one rounded addition decides whether the wrapped angle can reach \<open>2*pi\<close>; that
  rounding is a parameter of the model.  Where a claim is about non-finite values (the
  plant state), the type \<open>fl\<close> below keeps them apart from the finite ones.  An exception is a value of
  \<open>py_error\<close>; a method that can raise returns \<open>py_error + 'a\<close>, together with the
  object as the exception leaves it (Python does not undo the assignments made before
  the raise).  A division of Python floats raises \<open>ZeroDivisionError\<close> on a zero divisor;
  a division of numpy scalars yields \<open>inf\<close> or \<open>nan\<close> instead.

  The configuration is a record of reals.  What a result needs of it (a non-negative
  limit, a non-zero inductance or inertia) is a hypothesis of that result, discharged on a
  concrete configuration in the witness that follows it.
\<close>

datatype py_error = AttributeError | ValueError | ZeroDivisionError | IndexError

text \<open>\<open>np.clip(x, a_min, a_max)\<close> is \<open>minimum(a_max, maximum(x, a_min))\<close>.\<close>

definition np_clip :: "real \<Rightarrow> real \<Rightarrow> real \<Rightarrow> real" where
  "np_clip x a_min a_max = min a_max (max x a_min)"


section \<open>PIController (foc\_control.py and its copy in flux\_weakening.py)\<close>

text \<open>
  The two class definitions are textually identical, so one model serves both.
  \<open>output_limit\<close> is \<open>None\<close> or the pair \<open>[low, high]\<close>.
\<close>

record PIController =
  kp :: real
  ki :: real
  output_limit :: "(real \<times> real) option"
  integral :: real
  prev_error :: real

definition PIController_init :: "real \<Rightarrow> real \<Rightarrow> (real \<times> real) option \<Rightarrow> PIController" where
  "PIController_init p i lims =
     \<lparr>kp = p, ki = i, output_limit = lims, integral = 0, prev_error = 0\<rparr>"

definition PIController_reset :: "PIController \<Rightarrow> PIController" where
  "PIController_reset c = c\<lparr>integral := 0, prev_error := 0\<rparr>"

text \<open>
  \<open>update(error, dt)\<close>: the integral is accumulated first; the roll-back
  \<open>self.integral -= error * dt\<close> happens inside the two saturation branches, the second
  of which is an \<open>elif\<close>.
\<close>

definition PIController_update :: "PIController \<Rightarrow> real \<Rightarrow> real \<Rightarrow> real \<times> PIController" where
  "PIController_update c error dt =
     (let p_term = kp c * error;
          c1 = c\<lparr>integral := integral c + error * dt\<rparr>;
          i_term = ki c * integral c1;
          output = p_term + i_term
      in case output_limit c of
           None \<Rightarrow> (output, c1)
         | Some (low, high) \<Rightarrow>
             if output > high then
               (high, if error > 0 then c1\<lparr>integral := integral c1 - error * dt\<rparr> else c1)
             else if output < low then
               (low, if error < 0 then c1\<lparr>integral := integral c1 - error * dt\<rparr> else c1)
             else (output, c1))"

text \<open>Repeated ticks with a constant error: the controller after \<open>n\<close> calls.\<close>

fun PIController_ticks :: "nat \<Rightarrow> PIController \<Rightarrow> real \<Rightarrow> real \<Rightarrow> PIController" where
  "PIController_ticks 0 c error dt = c"
| "PIController_ticks (Suc n) c error dt =
     PIController_ticks n (snd (PIController_update c error dt)) error dt"


section \<open>Scalars that may be non-finite\<close>

text \<open>
  numpy arithmetic does not raise: a division by zero or an overflow yields \<open>inf\<close> or
  \<open>nan\<close>.  \<open>NonFin\<close> stands for any of \<open>nan\<close>, \<open>inf\<close>, \<open>-inf\<close>.  For \<open>+\<close>, \<open>-\<close>,
  \<open>*\<close>, for a division by a finite number and for \<open>%\<close> by a finite number, a non-finite
  operand gives a non-finite result, so the two-point abstraction is exact for the plant
  model, which uses no other operation on its state.
\<close>

datatype fl = Fin real | NonFin

fun fl_lift2 :: "(real \<Rightarrow> real \<Rightarrow> real) \<Rightarrow> fl \<Rightarrow> fl \<Rightarrow> fl" where
  "fl_lift2 f (Fin x) (Fin y) = Fin (f x y)"
| "fl_lift2 f _ _ = NonFin"

instantiation fl :: "{plus, minus, times}"
begin

definition plus_fl :: "fl \<Rightarrow> fl \<Rightarrow> fl" where
  "plus_fl a b = fl_lift2 (+) a b"

definition minus_fl :: "fl \<Rightarrow> fl \<Rightarrow> fl" where
  "minus_fl a b = fl_lift2 (-) a b"

definition times_fl :: "fl \<Rightarrow> fl \<Rightarrow> fl" where
  "times_fl a b = fl_lift2 (*) a b"

instance ..

end

text \<open>numpy's \<open>a / b\<close> for a finite divisor \<open>b\<close>: \<open>inf\<close> or \<open>nan\<close> when \<open>b = 0\<close>.\<close>

fun fl_div :: "fl \<Rightarrow> real \<Rightarrow> fl" where
  "fl_div (Fin x) y = (if y = 0 then NonFin else Fin (x / y))"
| "fl_div NonFin y = NonFin"

text \<open>\<open>int(x)\<close>, and C's \<open>trunc\<close>, truncate towards zero.\<close>

definition py_int :: "real \<Rightarrow> int" where
  "py_int x = (if x \<ge> 0 then \<lfloor>x\<rfloor> else \<lceil>x\<rceil>)"

text \<open>
  \<open>a % b\<close> on floats, for finite \<open>a\<close> and \<open>b \<noteq> 0\<close>, as Python and numpy compute it:
  \<^verbatim>\<open>mod = fmod(a, b); if (mod != 0 && ((b < 0) != (mod < 0))) mod += b;\<close>
  C's \<open>fmod\<close> is exact, \<open>a - b * trunc (a / b)\<close>, with the sign of \<open>a\<close>.  The addition
  \<open>mod += b\<close> is a float addition: its exact sum is rounded to a float.  The rounding
  \<open>rnd\<close> is a parameter; with the identity for it, \<open>py_mod\<close> is
  \<open>a - b * floor (a / b)\<close>.  The result is \<open>nan\<close> when \<open>b = 0\<close> or \<open>a\<close> is not finite.
\<close>

definition py_mod :: "(real \<Rightarrow> real) \<Rightarrow> real \<Rightarrow> real \<Rightarrow> real" where
  "py_mod rnd a b =
     (let m = a - b * of_int (py_int (a / b))
      in if m \<noteq> 0 \<and> ((b < 0) \<noteq> (m < 0)) then rnd (m + b) else m)"

fun fl_mod :: "(real \<Rightarrow> real) \<Rightarrow> fl \<Rightarrow> real \<Rightarrow> fl" where
  "fl_mod rnd (Fin x) y = (if y = 0 then NonFin else Fin (py_mod rnd x y))"
| "fl_mod rnd NonFin y = NonFin"

fun is_Fin :: "fl \<Rightarrow> bool" where
  "is_Fin (Fin x) = True"
| "is_Fin NonFin = False"


section \<open>The configuration file\<close>

text \<open>
  Every class reads \<open>motor_params.json\<close> in its \<open>load_parameters\<close> and copies the fields
  it needs into attributes of the same names.  The record below is the parsed file; a class
  that copies fields of it holds them in a component of this type and reads only the ones
  its own \<open>load_parameters\<close> assigns.
\<close>

record motor_params =
  poles :: real
  Rs :: real
  Ld :: real
  Lq :: real
  flux_linkage :: real
  J :: real
  B :: real
  max_current :: real
  max_voltage :: real
  dc_bus_voltage :: real
  sample_time :: real


section \<open>PMSMModel (motor\_model.py)\<close>

text \<open>
  The state attributes \<open>id\<close>, \<open>iq\<close>, \<open>wr\<close>, \<open>theta_e\<close>, \<open>load_torque\<close> carry the prefix
  \<open>m_\<close> (\<open>id\<close> is the identity function of HOL).  After the first \<open>update\<close> they are
  numpy scalars taken from the integrator's solution, hence of type \<open>fl\<close>.
\<close>

record PMSMModel =
  m_params :: motor_params
  m_id :: fl
  m_iq :: fl
  m_wr :: fl
  m_theta_e :: fl
  m_load_torque :: fl

definition reset_state :: "PMSMModel \<Rightarrow> PMSMModel" where
  "reset_state m = m\<lparr>m_id := Fin 0, m_iq := Fin 0, m_wr := Fin 0, m_theta_e := Fin 0,
                      m_load_torque := Fin 0\<rparr>"

definition PMSMModel_init :: "motor_params \<Rightarrow> PMSMModel" where
  "PMSMModel_init cfg =
     reset_state \<lparr>m_params = cfg, m_id = Fin 0, m_iq = Fin 0, m_wr = Fin 0, m_theta_e = Fin 0,
                  m_load_torque = Fin 0\<rparr>"

type_synonym state4 = "fl \<times> fl \<times> fl \<times> fl"

text \<open>
  \<open>electrical_dynamics(state, t, vd, vq, load_torque)\<close>, the right-hand side handed to
  the integrator, which calls it on numpy arrays.
\<close>

definition electrical_dynamics ::
  "PMSMModel \<Rightarrow> state4 \<Rightarrow> real \<Rightarrow> real \<Rightarrow> real \<Rightarrow> real \<Rightarrow> state4" where
  "electrical_dynamics m state t vd vq load_torque =
     (case state of (i_d, i_q, w, theta) \<Rightarrow>
        let c = m_params m;
            did_dt = fl_div (Fin vd - Fin (Rs c) * i_d + w * Fin (Lq c) * i_q) (Ld c);
            diq_dt = fl_div (Fin vq - Fin (Rs c) * i_q - w * Fin (Ld c) * i_d
                              - w * Fin (flux_linkage c)) (Lq c);
            Te = Fin (1.5 * poles c)
                  * (Fin (flux_linkage c) * i_q + Fin (Ld c - Lq c) * i_d * i_q);
            dwr_dt = fl_div (Te - Fin load_torque - Fin (B c) * w) (J c);
            dtheta_dt = w
        in (did_dt, diq_dt, dwr_dt, dtheta_dt))"

text \<open>
  \<open>scipy.integrate.odeint\<close> is not code of the repository.  It is a parameter of the
  model: given the right-hand side, the initial state and the time points, it yields the
  last row \<open>solution[-1]\<close> of the solution.  Nothing is assumed about it.
\<close>

type_synonym odeint = "(state4 \<Rightarrow> real \<Rightarrow> state4) \<Rightarrow> state4 \<Rightarrow> real list \<Rightarrow> state4"

record PMSM_telemetry =
  out_id :: fl
  out_iq :: fl
  out_wr :: fl
  out_theta_e :: fl
  out_Te :: fl
  out_speed_rpm :: fl

text \<open>
  \<open>update(vd, vq, load_torque)\<close>.  The method contains no \<open>raise\<close>; its result is given
  the type \<open>py_error + PMSM_telemetry\<close> so that "reports an error" can be stated of it.
  Its two parameters are the integrator and the rounding of the float addition inside
  \<open>self.theta_e % (2 * np.pi)\<close>.
\<close>

definition PMSMModel_update ::
  "odeint \<Rightarrow> (real \<Rightarrow> real) \<Rightarrow> PMSMModel \<Rightarrow> real \<Rightarrow> real \<Rightarrow> real
     \<Rightarrow> (py_error + PMSM_telemetry) \<times> PMSMModel" where
  "PMSMModel_update solver rnd m vd vq load_torque =
     (let c = m_params m;
          state = (m_id m, m_iq m, m_wr m, m_theta_e m);
          t = [0, sample_time c];
          solution = solver (\<lambda>s t. electrical_dynamics m s t vd vq load_torque) state t
      in case solution of (s0, s1, s2, s3) \<Rightarrow>
          let m1 = m\<lparr>m_id := s0, m_iq := s1, m_wr := s2, m_theta_e := s3\<rparr>;
              m2 = m1\<lparr>m_theta_e := fl_mod rnd (m_theta_e m1) (2 * pi)\<rparr>;
              m3 = m2\<lparr>m_load_torque := Fin load_torque\<rparr>;
              Te = Fin (1.5 * poles c)
                    * (Fin (flux_linkage c) * m_iq m3 + Fin (Ld c - Lq c) * m_id m3 * m_iq m3)
          in (Inr \<lparr>out_id = m_id m3, out_iq = m_iq m3, out_wr = m_wr m3,
                    out_theta_e = m_theta_e m3, out_Te = Te,
                    out_speed_rpm = fl_div (m_wr m3 * Fin 60) (2 * pi * poles c / 2)\<rparr>,
              m3))"

text \<open>A sequence of calls: the plant after each call, in order.\<close>

fun PMSMModel_trace ::
  "odeint \<Rightarrow> (real \<Rightarrow> real) \<Rightarrow> PMSMModel \<Rightarrow> (real \<times> real \<times> real) list \<Rightarrow> PMSMModel list" where
  "PMSMModel_trace solver rnd m [] = []"
| "PMSMModel_trace solver rnd m ((vd, vq, load_torque) # rest) =
     (let m' = snd (PMSMModel_update solver rnd m vd vq load_torque)
      in m' # PMSMModel_trace solver rnd m' rest)"

text \<open>The explicit Euler step, one admissible integrator (used to instantiate the parameter).\<close>

definition euler_step :: odeint where
  "euler_step f state ts =
     (case (state, f state 0) of ((a, b, c, d), (da, db, dc, dd)) \<Rightarrow>
        let h = Fin (last ts - hd ts)
        in (a + h * da, b + h * db, c + h * dc, d + h * dd))"

text \<open>
  \<open>apply_voltage_limits\<close> and \<open>apply_current_limits\<close>.  \<open>np.sqrt\<close> returns a numpy scalar,
  so \<open>scale\<close> is computed by numpy's division.
\<close>

definition apply_voltage_limits :: "PMSMModel \<Rightarrow> real \<Rightarrow> real \<Rightarrow> fl \<times> fl" where
  "apply_voltage_limits m vd vq =
     (let v_mag = sqrt (vd\<^sup>2 + vq\<^sup>2);
          v_max = dc_bus_voltage (m_params m) / sqrt 3
      in if v_mag > v_max then
           (let scale = fl_div (Fin v_max) v_mag in (Fin vd * scale, Fin vq * scale))
         else (Fin vd, Fin vq))"

definition apply_current_limits :: "PMSMModel \<Rightarrow> real \<Rightarrow> real \<Rightarrow> fl \<times> fl" where
  "apply_current_limits m id_ref iq_ref =
     (let i_mag = sqrt (id_ref\<^sup>2 + iq_ref\<^sup>2)
      in if i_mag > max_current (m_params m) then
           (let scale = fl_div (Fin (max_current (m_params m))) i_mag
            in (Fin id_ref * scale, Fin iq_ref * scale))
         else (Fin id_ref, Fin iq_ref))"


text \<open>
  Predicates used to state the angle invariant: a stored angle is in range when it is
  finite and lies in \<open>[0, 2*pi)\<close>, in closed range when it is finite and lies in
  \<open>[0, 2*pi]\<close>; the plant state is finite when its four components are; an integrator
  keeps the plant finite when, started with this plant's right-hand side from a finite
  state over one sample interval, it returns a finite state.
\<close>

fun angle_in_range :: "fl \<Rightarrow> bool" where
  "angle_in_range (Fin x) = (0 \<le> x \<and> x < 2 * pi)"
| "angle_in_range NonFin = False"

fun angle_in_closed_range :: "fl \<Rightarrow> bool" where
  "angle_in_closed_range (Fin x) = (0 \<le> x \<and> x \<le> 2 * pi)"
| "angle_in_closed_range NonFin = False"

text \<open>
  Rounding to the nearest float is monotone and leaves floats alone, so it maps the
  interval between the two floats \<open>0\<close> and \<open>b\<close> into itself.  This is all the angle
  invariant needs of the rounding.
\<close>

definition rounds_within :: "(real \<Rightarrow> real) \<Rightarrow> real \<Rightarrow> bool" where
  "rounds_within rnd b = (\<forall>x. 0 \<le> x \<and> x \<le> b \<longrightarrow> 0 \<le> rnd x \<and> rnd x \<le> b)"

text \<open>
  One such rounding, for concrete evaluations.  Doubles around \<open>2*pi\<close> are \<open>2^-50\<close> apart
  (about \<open>8.9e-16\<close>), so rounding to nearest takes every real within \<open>1e-16\<close> of the float
  \<open>2 * np.pi\<close> to that float.  \<open>round_at_two_pi\<close> does this and leaves every other real
  as it is.
\<close>

definition round_at_two_pi :: "real \<Rightarrow> real" where
  "round_at_two_pi x =
     (if 2 * pi - 1 / 10 ^ 16 < x \<and> x < 2 * pi + 1 / 10 ^ 16 then 2 * pi else x)"

definition fin_state :: "PMSMModel \<Rightarrow> bool" where
  "fin_state m = (is_Fin (m_id m) \<and> is_Fin (m_iq m) \<and> is_Fin (m_wr m) \<and> is_Fin (m_theta_e m))"

fun fin4 :: "state4 \<Rightarrow> bool" where
  "fin4 (a, b, c, d) = (is_Fin a \<and> is_Fin b \<and> is_Fin c \<and> is_Fin d)"

definition solver_keeps_finite :: "odeint \<Rightarrow> PMSMModel \<Rightarrow> bool" where
  "solver_keeps_finite solver m =
     (\<forall>a b c d vd vq load_torque.
        fin4 (solver (\<lambda>s t. electrical_dynamics m s t vd vq load_torque)
                (Fin a, Fin b, Fin c, Fin d) [0, sample_time (m_params m)]))"

text \<open>A configuration with plausible values, for concrete evaluations.\<close>

definition example_params :: motor_params where
  "example_params =
     \<lparr>poles = 8, Rs = 0.5, Ld = 0.001, Lq = 0.001, flux_linkage = 0.1, J = 0.001, B = 0.0001,
      max_current = 20, max_voltage = 48, dc_bus_voltage = 48, sample_time = 0.0001\<rparr>"


section \<open>FOCController.get\_sector (foc\_control.py)\<close>





section \<open>FluxWeakeningController (flux\_weakening.py)\<close>

text \<open>
  The arguments and the attributes read from the configuration are Python floats:
  \<open>a / b\<close> raises \<open>ZeroDivisionError\<close> when \<open>b\<close> is zero.  \<open>base_speed\<close> is a numpy scalar
  (\<open>calculate_base_speed\<close> computes it from \<open>np.sqrt\<close>), so an operation with it is
  numpy's and does not raise.  \<open>calculate_base_speed\<close> itself yields \<open>inf\<close> or \<open>nan\<close> when
  \<open>flux_linkage\<close> or \<open>poles\<close> is zero; a real number cannot hold that value, so the
  function is meaningful for non-zero \<open>flux_linkage\<close> and \<open>poles\<close> only.  The results
  below are stated for an arbitrary controller object and do not depend on it.

  Modelled: the constructor, \<open>reset\<close>, the three policies and \<open>update\<close>.
  \<open>get_optimal_current_references\<close> and the two \<open>calculate_*\<close> helpers for the limit
  curves are called by none of them and are left out.
\<close>

record FluxWeakeningController =
  fw_params :: motor_params
  base_speed :: real
  fw_kp :: real
  fw_ki :: real
  voltage_margin :: real
  fw_controller :: PIController
  id_fw :: real
  in_flux_weakening :: bool

definition calculate_base_speed :: "motor_params \<Rightarrow> real" where
  "calculate_base_speed cfg =
     (let v_max = dc_bus_voltage cfg / sqrt 3;
          base_speed_e = v_max / flux_linkage cfg;
          base_speed_m = base_speed_e / (poles cfg / 2)
      in base_speed_m)"

definition FluxWeakeningController_reset :: "FluxWeakeningController \<Rightarrow> FluxWeakeningController" where
  "FluxWeakeningController_reset c =
     c\<lparr>fw_controller := PIController_reset (fw_controller c), id_fw := 0,
       in_flux_weakening := False\<rparr>"

text \<open>\<open>__init__\<close>: \<open>load_parameters\<close>, \<open>initialize_controller\<close>, \<open>reset\<close>.\<close>

definition FluxWeakeningController_init :: "motor_params \<Rightarrow> FluxWeakeningController" where
  "FluxWeakeningController_init cfg =
     FluxWeakeningController_reset
       \<lparr>fw_params = cfg, base_speed = calculate_base_speed cfg, fw_kp = 0.5, fw_ki = 10,
        voltage_margin = 0.95,
        fw_controller = PIController_init 0.5 10 (Some (- max_current cfg, 0)),
        id_fw = 0, in_flux_weakening = False\<rparr>"

definition voltage_based_flux_weakening ::
  "FluxWeakeningController \<Rightarrow> real \<Rightarrow> real \<Rightarrow> real \<Rightarrow> real \<times> FluxWeakeningController" where
  "voltage_based_flux_weakening c w vd vq =
     (let v_mag = sqrt (vd\<^sup>2 + vq\<^sup>2);
          v_limit = dc_bus_voltage (fw_params c) / sqrt 3 * voltage_margin c;
          v_error = v_mag - v_limit
      in if v_error > 0 then
           (let (out, pic) = PIController_update (fw_controller c) v_error
                               (sample_time (fw_params c));
                c1 = c\<lparr>in_flux_weakening := True, fw_controller := pic, id_fw := out\<rparr>
            in (id_fw c1, c1))
         else
           (let c1 = c\<lparr>in_flux_weakening := False, id_fw := id_fw c * 0.95\<rparr>;
                c2 = (if \<bar>id_fw c1\<bar> < 0.01
                      then c1\<lparr>id_fw := 0, fw_controller := PIController_reset (fw_controller c1)\<rparr>
                      else c1)
            in (id_fw c2, c2)))"

definition speed_based_flux_weakening ::
  "FluxWeakeningController \<Rightarrow> real \<Rightarrow> real \<Rightarrow> (py_error + real) \<times> FluxWeakeningController" where
  "speed_based_flux_weakening c w iq_ref =
     (if w > base_speed c then
        (let c1 = c\<lparr>in_flux_weakening := True\<rparr>
         in if Ld (fw_params c) = 0 then (Inl ZeroDivisionError, c1)
            else
              (let v = - (flux_linkage (fw_params c) + Lq (fw_params c) * iq_ref)
                          / Ld (fw_params c);
                   v' = np_clip v (- max_current (fw_params c)) 0;
                   c2 = c1\<lparr>id_fw := v'\<rparr>
               in (Inr (id_fw c2), c2)))
      else
        (let c1 = c\<lparr>in_flux_weakening := False, id_fw := 0,
                     fw_controller := PIController_reset (fw_controller c)\<rparr>
         in (Inr (id_fw c1), c1)))"

text \<open>
  The lookup policy computes with the numpy scalar \<open>speed_ratio = wr / self.base_speed\<close>,
  which is \<open>inf\<close>, \<open>-inf\<close> or \<open>nan\<close> when \<open>base_speed\<close> is zero.  \<open>npf\<close> is a numpy scalar
  with these three values kept apart, and the operations below are numpy's on it, with a
  finite Python float as the other operand.  A zero divisor is \<open>+0.0\<close> (the sign of a zero
  is not part of a real number; \<open>calculate_base_speed\<close> yields \<open>+0.0\<close> for a zero bus
  voltage and positive \<open>flux_linkage\<close> and \<open>poles\<close>).
\<close>

datatype npf = Num real | PInf | NInf | NaN

definition np_divide :: "real \<Rightarrow> real \<Rightarrow> npf" where
  "np_divide a b =
     (if b \<noteq> 0 then Num (a / b) else if a > 0 then PInf else if a < 0 then NInf else NaN)"

fun npf_le :: "npf \<Rightarrow> real \<Rightarrow> bool" where
  "npf_le (Num a) r = (a \<le> r)"
| "npf_le NInf r = True"
| "npf_le PInf r = False"
| "npf_le NaN r = False"

fun npf_sub :: "npf \<Rightarrow> real \<Rightarrow> npf" where
  "npf_sub (Num a) r = Num (a - r)"
| "npf_sub x r = x"

fun npf_neg :: "npf \<Rightarrow> npf" where
  "npf_neg (Num a) = Num (- a)"
| "npf_neg PInf = NInf"
| "npf_neg NInf = PInf"
| "npf_neg NaN = NaN"

fun npf_mul :: "npf \<Rightarrow> real \<Rightarrow> npf" where
  "npf_mul (Num a) r = Num (a * r)"
| "npf_mul NaN r = NaN"
| "npf_mul x r = (if r > 0 then x else if r < 0 then npf_neg x else NaN)"

fun npf_div :: "npf \<Rightarrow> real \<Rightarrow> npf" where
  "npf_div (Num a) r = np_divide a r"
| "npf_div NaN r = NaN"
| "npf_div x r = (if r \<ge> 0 then x else npf_neg x)"

text \<open>\<open>np.clip\<close> on a numpy scalar: \<open>nan\<close> stays, an infinity is cut like any other value.\<close>

fun npf_clip :: "npf \<Rightarrow> real \<Rightarrow> real \<Rightarrow> npf" where
  "npf_clip (Num a) a_min a_max = Num (np_clip a a_min a_max)"
| "npf_clip PInf a_min a_max = Num a_max"
| "npf_clip NInf a_min a_max = Num (min a_max a_min)"
| "npf_clip NaN a_min a_max = NaN"

text \<open>
  \<open>lookup_table_flux_weakening(wr, iq_ref)\<close>.  The first division by \<open>self.Ld\<close> has a
  numpy numerator and does not raise; the second, \<open>self.Lq * iq_ref / self.Ld\<close>, divides
  Python floats and raises when \<open>Ld\<close> is zero.
\<close>

definition lookup_table_flux_weakening ::
  "FluxWeakeningController \<Rightarrow> real \<Rightarrow> real \<Rightarrow> py_error + npf" where
  "lookup_table_flux_weakening c w iq_ref =
     (let speed_ratio = np_divide w (base_speed c)
      in if npf_le speed_ratio 1 then Inr (Num 0)
         else
           (let over_speed_factor = npf_sub speed_ratio 1;
                v = npf_div (npf_mul (npf_neg over_speed_factor) (flux_linkage (fw_params c)))
                      (Ld (fw_params c))
            in if Ld (fw_params c) = 0 then Inl ZeroDivisionError
               else
                 (let v1 = npf_sub v (Lq (fw_params c) * iq_ref / Ld (fw_params c))
                  in Inr (npf_clip v1 (- max_current (fw_params c)) 0))))"

text \<open>
  \<open>update(wr, vd, vq, iq_ref, method='voltage')\<close>; the last branch is the source's \<open>else\<close>.
  The value returned is finite in every branch but the lookup policy's.
\<close>

definition FluxWeakeningController_update ::
  "FluxWeakeningController \<Rightarrow> real \<Rightarrow> real \<Rightarrow> real \<Rightarrow> real \<Rightarrow> string
     \<Rightarrow> (py_error + npf) \<times> FluxWeakeningController" where
  "FluxWeakeningController_update c w vd vq iq_ref method =
     (if method = ''voltage'' then
        (let (out, c1) = voltage_based_flux_weakening c w vd vq in (Inr (Num out), c1))
      else if method = ''speed'' then
        (let (res, c1) = speed_based_flux_weakening c w iq_ref
         in (case res of Inl e \<Rightarrow> Inl e | Inr out \<Rightarrow> Inr (Num out), c1))
      else if method = ''lookup'' then (lookup_table_flux_weakening c w iq_ref, c)
      else (Inr (Num 0), c))"


section \<open>MotorParameterIdentification (self\_learning.py)\<close>

text \<open>
  An estimator is the dictionary \<open>{'theta', 'P', 'lambda'}\<close>; \<open>theta\<close> and the regressor
  \<open>phi\<close> are one-dimensional arrays (lists), \<open>P\<close> is a square matrix (a list of rows).
  \<open>@\<close> between two vectors is the dot product, \<open>phi.T @ P\<close> the row vector
  \<open>(sum_i phi_i * P_ij)_j\<close>, \<open>P @ phi\<close> the column \<open>(sum_j P_ij * phi_j)_i\<close>.  The shapes are
  those \<open>initialize_estimators\<close> creates (\<open>theta\<close> of length \<open>n\<close>, \<open>P\<close> of size
  \<open>n \<times> n\<close>) with a regressor of length \<open>n\<close>; on other shapes numpy raises or broadcasts,
  and the results below assume \<open>well_shaped\<close>.
\<close>

record estimator =
  est_theta :: "real list"
  est_P :: "real list list"
  est_lambda :: real

definition dot :: "real list \<Rightarrow> real list \<Rightarrow> real" where
  "dot u v = (\<Sum>i<length u. u ! i * v ! i)"

definition vecmat :: "real list \<Rightarrow> real list list \<Rightarrow> real list" where
  "vecmat v P = map (\<lambda>j. \<Sum>i<length v. v ! i * P ! i ! j) [0..<length v]"

definition matvec :: "real list list \<Rightarrow> real list \<Rightarrow> real list" where
  "matvec P v = map (\<lambda>row. dot row v) P"

definition np_outer :: "real list \<Rightarrow> real list \<Rightarrow> real list list" where
  "np_outer u v = map (\<lambda>a. map (\<lambda>b. a * b) v) u"

definition well_shaped :: "estimator \<Rightarrow> real list \<Rightarrow> bool" where
  "well_shaped est phi =
     (length (est_theta est) = length phi \<and> length (est_P est) = length phi
      \<and> list_all (\<lambda>row. length row = length phi) (est_P est))"

text \<open>The first half of \<open>rls_update\<close>: the denominator and the gain vector \<open>K\<close>.\<close>

definition rls_denominator :: "estimator \<Rightarrow> real list \<Rightarrow> real" where
  "rls_denominator est phi = est_lambda est + dot (vecmat phi (est_P est)) phi"

definition rls_gain :: "estimator \<Rightarrow> real list \<Rightarrow> real list" where
  "rls_gain est phi =
     (let denominator = rls_denominator est phi
      in if \<bar>denominator\<bar> > 1 / 10 ^ 10
         then map (\<lambda>x. x / denominator) (matvec (est_P est) phi)
         else replicate (length (est_theta est)) 0)"

text \<open>\<open>rls_update(estimator, phi, y)\<close> returns the updated estimator and the prior error.\<close>

definition rls_update :: "estimator \<Rightarrow> real list \<Rightarrow> real \<Rightarrow> estimator \<times> real" where
  "rls_update est phi y =
     (let theta = est_theta est;
          P = est_P est;
          lambda_factor = est_lambda est;
          K = rls_gain est phi;
          error = y - dot phi theta;
          theta_new = map2 (\<lambda>t k. t + k * error) theta K;
          P_new = map2 (\<lambda>row orow. map2 (\<lambda>p q. (p - q) / lambda_factor) row orow)
                    P (np_outer K (vecmat phi P))
      in (est\<lparr>est_theta := theta_new, est_P := P_new\<rparr>, error))"

text \<open>
  The identification object: the nominal parameters, the four estimators and the identified
  values.  The data buffers, which only \<open>update\<close> appends to, are left out.  Reading
  \<open>theta[0]\<close> of an empty array raises \<open>IndexError\<close>.
\<close>

record MotorParameterIdentification =
  mpi_params :: motor_params
  forgetting_factor :: real
  min_speed_for_identification :: real
  Rs_estimator :: estimator
  L_estimator :: estimator
  flux_estimator :: estimator
  mech_estimator :: estimator
  Rs_identified :: real
  Ld_identified :: real
  Lq_identified :: real
  flux_identified :: real
  J_identified :: real
  B_identified :: real
  identification_count :: nat
  identification_complete :: bool

definition MotorParameterIdentification_init :: "motor_params \<Rightarrow> MotorParameterIdentification" where
  "MotorParameterIdentification_init cfg =
     \<lparr>mpi_params = cfg, forgetting_factor = 0.99, min_speed_for_identification = 10,
      Rs_estimator = \<lparr>est_theta = [Rs cfg], est_P = [[1000]], est_lambda = 0.99\<rparr>,
      L_estimator = \<lparr>est_theta = [Ld cfg, Lq cfg], est_P = [[1000, 0], [0, 1000]],
                      est_lambda = 0.99\<rparr>,
      flux_estimator = \<lparr>est_theta = [flux_linkage cfg], est_P = [[1000]], est_lambda = 0.99\<rparr>,
      mech_estimator = \<lparr>est_theta = [J cfg, B cfg], est_P = [[1000, 0], [0, 1000]],
                         est_lambda = 0.99\<rparr>,
      Rs_identified = Rs cfg, Ld_identified = Ld cfg, Lq_identified = Lq cfg,
      flux_identified = flux_linkage cfg, J_identified = J cfg, B_identified = B cfg,
      identification_count = 0, identification_complete = False\<rparr>"

text \<open>The two assignments that follow an \<open>rls_update\<close> of the resistance estimator.\<close>

definition store_resistance ::
  "MotorParameterIdentification \<Rightarrow> estimator \<Rightarrow> (py_error + unit) \<times> MotorParameterIdentification" where
  "store_resistance s est =
     (let s1 = s\<lparr>Rs_estimator := est\<rparr>
      in case est_theta est of
           [] \<Rightarrow> (Inl IndexError, s1)
         | r # _ \<Rightarrow> (Inr (), s1\<lparr>Rs_identified := r\<rparr>))"

definition identify_resistance ::
  "MotorParameterIdentification \<Rightarrow> real \<Rightarrow> real \<Rightarrow> real \<Rightarrow> real \<Rightarrow> real
     \<Rightarrow> (py_error + unit) \<times> MotorParameterIdentification" where
  "identify_resistance s vd i_d vq i_q w =
     (if \<bar>w\<bar> < min_speed_for_identification s then
        (if \<bar>i_d\<bar> > 0.1 then
           (let phi = [i_d]; y = vd; (est, error) = rls_update (Rs_estimator s) phi y
            in store_resistance s est)
         else if \<bar>i_q\<bar> > 0.1 then
           (let phi = [i_q]; y = vq; (est, error) = rls_update (Rs_estimator s) phi y
            in store_resistance s est)
         else (Inr (), s))
      else (Inr (), s))"


section \<open>Disturbance rejection (disturbance\_rejection.py)\<close>

subsection \<open>DisturbanceObserver\<close>

record DisturbanceObserver =
  do_params :: motor_params
  observer_bandwidth :: real
  observer_gain :: real
  disturbance_estimate :: real
  speed_estimate :: real
  observed_torque :: real

definition DisturbanceObserver_reset :: "DisturbanceObserver \<Rightarrow> DisturbanceObserver" where
  "DisturbanceObserver_reset ob =
     ob\<lparr>disturbance_estimate := 0, speed_estimate := 0, observed_torque := 0\<rparr>"

definition DisturbanceObserver_init :: "motor_params \<Rightarrow> DisturbanceObserver" where
  "DisturbanceObserver_init cfg =
     DisturbanceObserver_reset
       \<lparr>do_params = cfg, observer_bandwidth = 100, observer_gain = 100 * J cfg,
        disturbance_estimate = 0, speed_estimate = 0, observed_torque = 0\<rparr>"

text \<open>
  \<open>update(Te, wr_actual, load_torque_estimate=0.0)\<close>.  The disturbance estimate is
  assigned before the division by \<open>self.J\<close>, which raises when \<open>J\<close> is zero.
\<close>

definition DisturbanceObserver_update ::
  "DisturbanceObserver \<Rightarrow> real \<Rightarrow> real \<Rightarrow> real \<Rightarrow> (py_error + real) \<times> DisturbanceObserver" where
  "DisturbanceObserver_update ob Te wr_actual load_torque_estimate =
     (let c = do_params ob;
          speed_error = speed_estimate ob - wr_actual;
          ob1 = ob\<lparr>disturbance_estimate :=
                     disturbance_estimate ob + observer_gain ob * speed_error * sample_time c\<rparr>
      in if J c = 0 then (Inl ZeroDivisionError, ob1)
         else
           (let ob2 = ob1\<lparr>speed_estimate := speed_estimate ob1
                        + ((Te - B c * wr_actual - disturbance_estimate ob1) / J c)
                          * sample_time c\<rparr>;
                ob3 = ob2\<lparr>observed_torque := disturbance_estimate ob2 + load_torque_estimate\<rparr>
            in (Inr (observed_torque ob3), ob3)))"


subsection \<open>AdaptiveController\<close>

record AdaptiveController =
  ac_params :: motor_params
  adaptation_rate :: real
  min_gain :: real
  max_gain :: real
  id_kp_adaptive :: real
  id_ki_adaptive :: real
  iq_kp_adaptive :: real
  iq_ki_adaptive :: real
  speed_kp_adaptive :: real
  speed_ki_adaptive :: real
  id_error_integral :: real
  iq_error_integral :: real
  speed_error_integral :: real

definition AdaptiveController_reset :: "AdaptiveController \<Rightarrow> AdaptiveController" where
  "AdaptiveController_reset a =
     a\<lparr>id_error_integral := 0, iq_error_integral := 0, speed_error_integral := 0\<rparr>"

definition AdaptiveController_init :: "motor_params \<Rightarrow> AdaptiveController" where
  "AdaptiveController_init cfg =
     AdaptiveController_reset
       \<lparr>ac_params = cfg, adaptation_rate = 0.01, min_gain = 0.1, max_gain = 10,
        id_kp_adaptive = 2 * Ld cfg, id_ki_adaptive = Rs cfg,
        iq_kp_adaptive = 2 * Lq cfg, iq_ki_adaptive = Rs cfg,
        speed_kp_adaptive = 0.5, speed_ki_adaptive = 5,
        id_error_integral = 0, iq_error_integral = 0, speed_error_integral = 0\<rparr>"

definition update_gains ::
  "AdaptiveController \<Rightarrow> real \<Rightarrow> real \<Rightarrow> real \<Rightarrow> real \<Rightarrow> AdaptiveController" where
  "update_gains a id_error iq_error speed_error w =
     (let dt = sample_time (ac_params a);
          up = 1 + adaptation_rate a;
          down = 1 - adaptation_rate a * 0.5;
          a1 = a\<lparr>id_error_integral := id_error_integral a + id_error\<^sup>2 * dt,
                 iq_error_integral := iq_error_integral a + iq_error\<^sup>2 * dt,
                 speed_error_integral := speed_error_integral a + speed_error\<^sup>2 * dt\<rparr>;
          a2 = (if id_error_integral a1 > 0.1
                then a1\<lparr>id_kp_adaptive := id_kp_adaptive a1 * up,
                        id_ki_adaptive := id_ki_adaptive a1 * up\<rparr>
                else a1\<lparr>id_kp_adaptive := id_kp_adaptive a1 * down,
                        id_ki_adaptive := id_ki_adaptive a1 * down\<rparr>);
          a3 = (if iq_error_integral a2 > 0.1
                then a2\<lparr>iq_kp_adaptive := iq_kp_adaptive a2 * up,
                        iq_ki_adaptive := iq_ki_adaptive a2 * up\<rparr>
                else a2\<lparr>iq_kp_adaptive := iq_kp_adaptive a2 * down,
                        iq_ki_adaptive := iq_ki_adaptive a2 * down\<rparr>);
          a4 = (if speed_error_integral a3 > 1
                then a3\<lparr>speed_kp_adaptive := speed_kp_adaptive a3 * up,
                        speed_ki_adaptive := speed_ki_adaptive a3 * up\<rparr>
                else a3\<lparr>speed_kp_adaptive := speed_kp_adaptive a3 * down,
                        speed_ki_adaptive := speed_ki_adaptive a3 * down\<rparr>);
          a5 = a4\<lparr>id_kp_adaptive := np_clip (id_kp_adaptive a4) (min_gain a4) (max_gain a4),
                  id_ki_adaptive := np_clip (id_ki_adaptive a4) (min_gain a4) (max_gain a4),
                  iq_kp_adaptive := np_clip (iq_kp_adaptive a4) (min_gain a4) (max_gain a4),
                  iq_ki_adaptive := np_clip (iq_ki_adaptive a4) (min_gain a4) (max_gain a4),
                  speed_kp_adaptive := np_clip (speed_kp_adaptive a4) (min_gain a4) (max_gain a4),
                  speed_ki_adaptive := np_clip (speed_ki_adaptive a4) (min_gain a4) (max_gain a4)\<rparr>
      in if py_int w mod 100 = 0
         then a5\<lparr>id_error_integral := id_error_integral a5 * 0.9,
                 iq_error_integral := iq_error_integral a5 * 0.9,
                 speed_error_integral := speed_error_integral a5 * 0.9\<rparr>
         else a5)"

record adaptive_gains =
  id_kp :: real
  id_ki :: real
  iq_kp :: real
  iq_ki :: real
  speed_kp :: real
  speed_ki :: real

definition get_adaptive_gains :: "AdaptiveController \<Rightarrow> adaptive_gains" where
  "get_adaptive_gains a =
     \<lparr>id_kp = id_kp_adaptive a, id_ki = id_ki_adaptive a, iq_kp = iq_kp_adaptive a,
      iq_ki = iq_ki_adaptive a, speed_kp = speed_kp_adaptive a, speed_ki = speed_ki_adaptive a\<rparr>"


subsection \<open>RobustController\<close>

text \<open>\<open>h_infinity_control\<close> is called nowhere in the repository and is left out.\<close>

record RobustController =
  rc_params :: motor_params
  sliding_gain :: real
  boundary_layer :: real
  h_infinity_gamma :: real
  sliding_surface :: real
  sliding_surface_prev :: real
  control_output_prev :: real
  hinf_state :: "real list"

definition RobustController_reset :: "RobustController \<Rightarrow> RobustController" where
  "RobustController_reset rc =
     rc\<lparr>sliding_surface := 0, sliding_surface_prev := 0, control_output_prev := 0,
        hinf_state := [0, 0]\<rparr>"

definition RobustController_init :: "motor_params \<Rightarrow> RobustController" where
  "RobustController_init cfg =
     RobustController_reset
       \<lparr>rc_params = cfg, sliding_gain = 10, boundary_layer = 0.1, h_infinity_gamma = 1,
        sliding_surface = 0, sliding_surface_prev = 0, control_output_prev = 0,
        hinf_state = [0, 0]\<rparr>"

text \<open>
  \<open>sliding_mode_control(error, error_dot, disturbance_estimate=0.0)\<close>; \<open>np.sign\<close> is
  \<open>sgn\<close>.  The division by \<open>boundary_layer\<close> happens only where
  \<open>|sliding_surface| < boundary_layer\<close>, hence with a positive divisor.
\<close>

definition sliding_mode_control ::
  "RobustController \<Rightarrow> real \<Rightarrow> real \<Rightarrow> real \<Rightarrow> real \<times> RobustController" where
  "sliding_mode_control rc error error_dot dist_estimate =
     (let lambda_smc = 10;
          rc1 = rc\<lparr>sliding_surface := error_dot + lambda_smc * error\<rparr>;
          equivalent_control = - error_dot - lambda_smc * error;
          switching_control0 = - sliding_gain rc1 * sgn (sliding_surface rc1);
          switching_control =
            (if \<bar>sliding_surface rc1\<bar> < boundary_layer rc1
             then - sliding_gain rc1 * sliding_surface rc1 / boundary_layer rc1
             else switching_control0);
          control_output = equivalent_control + switching_control - dist_estimate
      in (control_output, rc1))"


subsection \<open>DisturbanceRejectionController\<close>

text \<open>
  The record holds the eight attributes \<open>__init__\<close> assigns.  Python looks any other
  attribute up in the instance dictionary and raises \<open>AttributeError\<close> when it is absent;
  \<open>instance_dict\<close> is that dictionary for further float attributes.  \<open>__init__\<close> creates it
  empty and no method of the class writes to it.  The three buffers are
  \<open>deque(maxlen=1000)\<close>: appending to a full one drops its oldest element.
\<close>

record metrics =
  speed_error_rms :: real
  torque_ripple :: real
  disturbance_rejection_ratio :: real

record DisturbanceRejectionController =
  disturbance_observer :: DisturbanceObserver
  adaptive_controller :: AdaptiveController
  robust_controller :: RobustController
  control_mode :: string
  performance_metrics :: metrics
  speed_error_buffer :: "real list"
  torque_buffer :: "real list"
  disturbance_buffer :: "real list"
  instance_dict :: "string \<rightharpoonup> real"

definition DisturbanceRejectionController_init :: "motor_params \<Rightarrow> DisturbanceRejectionController" where
  "DisturbanceRejectionController_init cfg =
     \<lparr>disturbance_observer = DisturbanceObserver_init cfg,
      adaptive_controller = AdaptiveController_init cfg,
      robust_controller = RobustController_init cfg,
      control_mode = ''observer'',
      performance_metrics =
        \<lparr>speed_error_rms = 0, torque_ripple = 0, disturbance_rejection_ratio = 0\<rparr>,
      speed_error_buffer = [], torque_buffer = [], disturbance_buffer = [],
      instance_dict = Map.empty\<rparr>"

definition DisturbanceRejectionController_reset ::
  "DisturbanceRejectionController \<Rightarrow> DisturbanceRejectionController" where
  "DisturbanceRejectionController_reset s =
     s\<lparr>disturbance_observer := DisturbanceObserver_reset (disturbance_observer s),
       adaptive_controller := AdaptiveController_reset (adaptive_controller s),
       robust_controller := RobustController_reset (robust_controller s),
       speed_error_buffer := [], torque_buffer := [], disturbance_buffer := []\<rparr>"

definition set_control_mode ::
  "DisturbanceRejectionController \<Rightarrow> string
     \<Rightarrow> (py_error + unit) \<times> DisturbanceRejectionController" where
  "set_control_mode s mode =
     (if mode \<in> set [''observer'', ''adaptive'', ''robust'', ''combined'']
      then (Inr (), s\<lparr>control_mode := mode\<rparr>)
      else (Inl ValueError, s))"

definition deque_append :: "real list \<Rightarrow> real \<Rightarrow> real list" where
  "deque_append xs x = (if length xs \<ge> 1000 then tl xs @ [x] else xs @ [x])"

definition np_mean :: "real list \<Rightarrow> real" where
  "np_mean xs = sum_list xs / real (length xs)"

text \<open>Called on non-empty lists only: the source tests \<open>len(...) > 0\<close> first.\<close>

definition np_max :: "real list \<Rightarrow> real" where
  "np_max xs = Max (set xs)"

definition np_min :: "real list \<Rightarrow> real" where
  "np_min xs = Min (set xs)"

definition update_performance_metrics ::
  "DisturbanceRejectionController \<Rightarrow> DisturbanceRejectionController" where
  "update_performance_metrics s =
     (if length (speed_error_buffer s) > 10 then
        (let speed_errors = speed_error_buffer s;
             pm1 = (performance_metrics s)
                     \<lparr>speed_error_rms := sqrt (np_mean (map (\<lambda>x. x\<^sup>2) speed_errors))\<rparr>;
             torques = torque_buffer s;
             pm2 = (if length torques > 0 \<and> np_mean (map abs torques) > 0
                    then pm1\<lparr>torque_ripple := (np_max torques - np_min torques)
                                                / (2 * np_mean (map abs torques))\<rparr>
                    else pm1);
             disturbances = disturbance_buffer s;
             pm3 = (if length disturbances > 0 \<and> np_max (map abs disturbances) > 0
                    then pm2\<lparr>disturbance_rejection_ratio :=
                                speed_error_rms pm2 / np_max (map abs disturbances)\<rparr>
                    else pm2)
         in s\<lparr>performance_metrics := pm3\<rparr>)
      else s)"

text \<open>
  Reading a float attribute of the controller object itself, and the feed-forward term
  \<open>disturbance_torque / (1.5 * self.poles * self.flux_linkage)\<close>, whose operands are
  evaluated left to right.
\<close>

definition drc_getattr :: "DisturbanceRejectionController \<Rightarrow> string \<Rightarrow> py_error + real" where
  "drc_getattr s name =
     (case instance_dict s name of None \<Rightarrow> Inl AttributeError | Some v \<Rightarrow> Inr v)"

definition feedforward_compensation ::
  "DisturbanceRejectionController \<Rightarrow> real \<Rightarrow> py_error + real" where
  "feedforward_compensation s disturbance_torque =
     (case drc_getattr s ''poles'' of
        Inl e \<Rightarrow> Inl e
      | Inr p \<Rightarrow>
          (case drc_getattr s ''flux_linkage'' of
             Inl e \<Rightarrow> Inl e
           | Inr f \<Rightarrow>
               if 1.5 * p * f = 0 then Inl ZeroDivisionError
               else Inr (disturbance_torque / (1.5 * p * f))))"

record telemetry =
  id_ref_modified :: real
  iq_ref_modified :: real
  disturbance_estimate_out :: real
  adaptive_gains_out :: adaptive_gains
  performance_metrics_out :: metrics

text \<open>The tail of \<open>update\<close> once \<open>iq_ref_modified\<close> is known: the metrics and the bundle.\<close>

definition finish_update ::
  "DisturbanceRejectionController \<Rightarrow> real \<Rightarrow> real \<Rightarrow> real
     \<Rightarrow> (py_error + telemetry) \<times> DisturbanceRejectionController" where
  "finish_update s id_ref iq_mod disturbance_torque =
     (let s1 = update_performance_metrics s
      in (Inr \<lparr>id_ref_modified = id_ref, iq_ref_modified = iq_mod,
               disturbance_estimate_out = disturbance_torque,
               adaptive_gains_out = get_adaptive_gains (adaptive_controller s1),
               performance_metrics_out = performance_metrics s1\<rparr>, s1))"

definition DisturbanceRejectionController_update ::
  "DisturbanceRejectionController \<Rightarrow> real \<Rightarrow> real \<Rightarrow> real \<Rightarrow> real \<Rightarrow> real \<Rightarrow> real \<Rightarrow> real
     \<Rightarrow> (py_error + telemetry) \<times> DisturbanceRejectionController" where
  "DisturbanceRejectionController_update s Te wr_actual wr_ref id_actual iq_actual id_ref iq_ref =
     (let speed_error = wr_ref - wr_actual;
          id_error = id_ref - id_actual;
          iq_error = iq_ref - iq_actual;
          (res, ob) = DisturbanceObserver_update (disturbance_observer s) Te wr_actual 0;
          s1 = s\<lparr>disturbance_observer := ob\<rparr>
      in case res of
           Inl e \<Rightarrow> (Inl e, s1)
         | Inr disturbance_torque \<Rightarrow>
            (let s2 = s1\<lparr>speed_error_buffer := deque_append (speed_error_buffer s1) speed_error,
                         torque_buffer := deque_append (torque_buffer s1) Te,
                         disturbance_buffer :=
                           deque_append (disturbance_buffer s1) disturbance_torque\<rparr>
             in if control_mode s2 = ''observer'' then
                  (case feedforward_compensation s2 disturbance_torque of
                     Inl e \<Rightarrow> (Inl e, s2)
                   | Inr compensation \<Rightarrow>
                       finish_update s2 id_ref (iq_ref + compensation) disturbance_torque)
                else if control_mode s2 = ''adaptive'' then
                  (let s3 = s2\<lparr>adaptive_controller :=
                                 update_gains (adaptive_controller s2) id_error iq_error
                                   speed_error wr_actual\<rparr>
                   in finish_update s3 id_ref iq_ref disturbance_torque)
                else if control_mode s2 = ''robust'' then
                  (let speed_error_dot = 0;
                       (compensation, rc) = sliding_mode_control (robust_controller s2)
                                              speed_error speed_error_dot disturbance_torque;
                       s3 = s2\<lparr>robust_controller := rc\<rparr>
                   in finish_update s3 id_ref (iq_ref + compensation / 10) disturbance_torque)
                else if control_mode s2 = ''combined'' then
                  (case feedforward_compensation s2 disturbance_torque of
                     Inl e \<Rightarrow> (Inl e, s2)
                   | Inr compensation \<Rightarrow>
                       (let s3 = s2\<lparr>adaptive_controller :=
                                      update_gains (adaptive_controller s2) id_error iq_error
                                        speed_error wr_actual\<rparr>;
                            speed_error_dot = 0;
                            (robust_compensation, rc) =
                               sliding_mode_control (robust_controller s3)
                                 speed_error speed_error_dot disturbance_torque;
                            s4 = s3\<lparr>robust_controller := rc\<rparr>
                        in finish_update s4 id_ref
                             (iq_ref + compensation + robust_compensation / 20)
                             disturbance_torque))
                else finish_update s2 id_ref iq_ref disturbance_torque))"

text \<open>
  The controller objects the class itself can produce: built by \<open>__init__\<close> from a
  configuration and then driven through \<open>reset\<close>, \<open>set_control_mode\<close> and \<open>update\<close>, raising
  or not.
\<close>

inductive drc_reachable :: "motor_params \<Rightarrow> DisturbanceRejectionController \<Rightarrow> bool"
  for cfg :: motor_params where
  reach_init: "drc_reachable cfg (DisturbanceRejectionController_init cfg)"
| reach_reset: "drc_reachable cfg s \<Longrightarrow> drc_reachable cfg (DisturbanceRejectionController_reset s)"
| reach_mode: "drc_reachable cfg s \<Longrightarrow> drc_reachable cfg (snd (set_control_mode s mode))"
| reach_update: "drc_reachable cfg s \<Longrightarrow>
     drc_reachable cfg
       (snd (DisturbanceRejectionController_update s Te wr_actual wr_ref id_actual iq_actual
               id_ref iq_ref))"


section \<open>Results\<close>

subsection \<open>PI controller: clamping and conditional anti-windup\<close>

lemma PIController_ticks_scenario:
  "integral c = 0 \<Longrightarrow> kp c = 1 \<Longrightarrow> ki c = 1 \<Longrightarrow> output_limit c = Some (-1, 1) \<Longrightarrow>
   integral (PIController_ticks n c 10 (1/10)) = 0"
proof (induction n arbitrary: c)
  case 0
  then show ?case by simp
next
  case (Suc n)
  let ?c' = "snd (PIController_update c 10 (1/10))"
  have "integral ?c' = 0" "kp ?c' = 1" "ki ?c' = 1" "output_limit ?c' = Some (-1, 1)"
    using Suc.prems by (simp_all add: PIController_update_def Let_def)
  then have "integral (PIController_ticks n ?c' 10 (1/10)) = 0"
    by (rule Suc.IH)
  then show ?case by simp
qed

text \<open>
  Claim C2.  With output limits \<open>[low, high]\<close> set (\<open>low \<le> high\<close>), the value returned by
  \<open>PIController.update\<close> is \<open>Kp*error + Ki*integral\<close> (the integral after this step's
  accumulation) clamped to \<open>[low, high]\<close>; the accumulator is rolled back by exactly
  \<open>error*dt\<close> when the output saturates high with a positive error or saturates low with
  a negative error, and in every other case it keeps the accumulated value.  In the scenario
  \<open>Kp = 1\<close>, \<open>Ki = 1\<close>, limits \<open>[-1, 1]\<close>, constant error \<open>10\<close>, \<open>dt = 0.1\<close>, the first call
  returns \<open>1\<close> and after any number of calls the accumulator is within \<open>[-1, 1]\<close> (it is
  \<open>0\<close>).
\<close>

theorem PIController_update_clamp_antiwindup:
  assumes lims: "output_limit c = Some (low, high)" and ord: "low \<le> high"
  shows "fst (PIController_update c error dt)
           = max low (min high (kp c * error + ki c * (integral c + error * dt)))
       \<and> integral (snd (PIController_update c error dt))
           = (if (kp c * error + ki c * (integral c + error * dt) > high \<and> error > 0)
               \<or> (kp c * error + ki c * (integral c + error * dt) < low \<and> error < 0)
              then (integral c + error * dt) - error * dt
              else integral c + error * dt)
       \<and> fst (PIController_update (PIController_init 1 1 (Some (-1, 1))) 10 (1/10)) = 1
       \<and> (\<forall>n. \<bar>integral (PIController_ticks n (PIController_init 1 1 (Some (-1, 1))) 10 (1/10))\<bar> \<le> 1)"
proof -
  have a: "fst (PIController_update c error dt)
           = max low (min high (kp c * error + ki c * (integral c + error * dt)))"
    using lims ord by (simp add: PIController_update_def Let_def max_def min_def)
  have b: "integral (snd (PIController_update c error dt))
           = (if (kp c * error + ki c * (integral c + error * dt) > high \<and> error > 0)
               \<or> (kp c * error + ki c * (integral c + error * dt) < low \<and> error < 0)
              then (integral c + error * dt) - error * dt
              else integral c + error * dt)"
    using lims ord by (simp add: PIController_update_def Let_def)
  have c: "fst (PIController_update (PIController_init 1 1 (Some (-1, 1))) 10 (1/10)) = 1"
    by (simp add: PIController_update_def PIController_init_def Let_def)
  have d: "\<bar>integral (PIController_ticks n (PIController_init 1 1 (Some (-1, 1))) 10 (1/10))\<bar> \<le> 1" for n
    by (simp add: PIController_ticks_scenario PIController_init_def)
  from a b c d show ?thesis by blast
qed

theorem PIController_update_clamp_antiwindup_witness:
  "output_limit (PIController_init 1 1 (Some (-1, 1))) = Some (-1, 1) \<and> (-1::real) \<le> 1
   \<and> fst (PIController_update (PIController_init 1 1 (Some (-1, 1))) (-10) (1/10)) = -1
   \<and> integral (snd (PIController_update (PIController_init 1 1 (Some (-1, 1))) (-10) (1/10))) = 0"
  using PIController_update_clamp_antiwindup
          [of "PIController_init 1 1 (Some (-1, 1))" "-1" 1 "-10" "1/10"]
  by (simp add: PIController_init_def)


subsection \<open>Sector classification\<close>

























subsection \<open>The plant model: angle wrapping, non-finite states, circular clamps\<close>

lemma floor_mod_range:
  fixes a b :: real
  assumes "0 < b"
  shows "0 \<le> a - b * of_int \<lfloor>a / b\<rfloor> \<and> a - b * of_int \<lfloor>a / b\<rfloor> < b"
proof -
  have l: "of_int \<lfloor>a / b\<rfloor> \<le> a / b" by (rule of_int_floor_le)
  have u: "a / b < of_int \<lfloor>a / b\<rfloor> + 1" by linarith
  have e: "a / b * b = a" using assms by simp
  have "of_int \<lfloor>a / b\<rfloor> * b \<le> a / b * b"
    using l assms by (intro mult_right_mono) simp_all
  then have l': "of_int \<lfloor>a / b\<rfloor> * b \<le> a" by (simp only: e)
  have "a / b * b < (of_int \<lfloor>a / b\<rfloor> + 1) * b"
    using u assms by (intro mult_strict_right_mono) simp_all
  then have u': "a < (of_int \<lfloor>a / b\<rfloor> + 1) * b" by (simp only: e)
  show ?thesis using l' u' by (simp add: algebra_simps)
qed

lemma ceiling_mod_range:
  fixes a b :: real
  assumes "0 < b"
  shows "- b < a - b * of_int \<lceil>a / b\<rceil> \<and> a - b * of_int \<lceil>a / b\<rceil> \<le> 0"
proof -
  have l: "a / b \<le> of_int \<lceil>a / b\<rceil>" by (rule le_of_int_ceiling)
  have u: "of_int \<lceil>a / b\<rceil> < a / b + 1" by linarith
  have e: "a / b * b = a" using assms by simp
  have "a / b * b \<le> of_int \<lceil>a / b\<rceil> * b"
    using l assms by (intro mult_right_mono) simp_all
  then have l': "a \<le> of_int \<lceil>a / b\<rceil> * b" by (simp only: e)
  have "of_int \<lceil>a / b\<rceil> * b < (a / b + 1) * b"
    using u assms by (intro mult_strict_right_mono) simp_all
  then have u': "of_int \<lceil>a / b\<rceil> * b < a + b" using e by (simp add: algebra_simps)
  show ?thesis using l' u' by (simp add: algebra_simps)
qed

lemma py_mod_nonneg:
  assumes b: "0 < b" and a: "0 \<le> a"
  shows "py_mod rnd a b = a - b * of_int \<lfloor>a / b\<rfloor>
       \<and> 0 \<le> py_mod rnd a b \<and> py_mod rnd a b < b"
proof -
  have q: "0 \<le> a / b" using a b by simp
  have r: "0 \<le> a - b * of_int \<lfloor>a / b\<rfloor>" "a - b * of_int \<lfloor>a / b\<rfloor> < b"
    using floor_mod_range [OF b, of a] by auto
  have n: "\<not> a - b * of_int \<lfloor>a / b\<rfloor> < 0" "\<not> b < 0" using r(1) b by linarith+
  have "py_mod rnd a b = a - b * of_int \<lfloor>a / b\<rfloor>"
    using q n by (simp add: py_mod_def py_int_def Let_def)
  then show ?thesis using r by simp
qed

lemma py_mod_closed:
  assumes b: "0 < b" and r: "rounds_within rnd b"
  shows "0 \<le> py_mod rnd a b \<and> py_mod rnd a b \<le> b"
proof (cases "0 \<le> a")
  case True
  then show ?thesis using py_mod_nonneg [OF b True, of rnd] by simp
next
  case False
  then have q: "\<not> 0 \<le> a / b" using b by (simp add: divide_less_0_iff not_le)
  let ?m = "a - b * of_int \<lceil>a / b\<rceil>"
  have c: "- b < ?m" "?m \<le> 0" using ceiling_mod_range [OF b, of a] by auto
  have nb: "\<not> b < 0" using b by linarith
  show ?thesis
  proof (cases "?m = 0")
    case True
    then have "py_mod rnd a b = 0" using q by (simp add: py_mod_def py_int_def Let_def)
    then show ?thesis using b by simp
  next
    case False
    then have neg: "?m < 0" using c(2) by linarith
    have "py_mod rnd a b = rnd (?m + b)"
      using q False neg nb by (simp add: py_mod_def py_int_def Let_def)
    moreover have "0 \<le> ?m + b \<and> ?m + b \<le> b" using c by linarith
    ultimately show ?thesis using r unfolding rounds_within_def by simp
  qed
qed

lemma py_mod_small_negative:
  assumes b: "0 < b" and l: "- b < a" and u: "a < 0"
  shows "py_mod rnd a b = rnd (a + b)"
proof -
  have q: "- 1 < a / b" "a / b < 0" using b l u by (simp_all add: field_simps)
  have "\<lceil>a / b\<rceil> = 0" using q by (intro ceiling_unique) simp_all
  moreover have "\<not> 0 \<le> a / b" using q by linarith
  moreover have "\<not> b < 0" using b by linarith
  ultimately show ?thesis using u by (simp add: py_mod_def py_int_def Let_def)
qed

lemma is_Fin_D: "is_Fin s \<Longrightarrow> \<exists>r. s = Fin r"
  by (cases s) simp_all

lemma fl_mod_is_Fin: "is_Fin (fl_mod rnd s (2 * pi)) = is_Fin s"
  using pi_gt_zero by (cases s) simp_all

lemma fl_mod_closed:
  "rounds_within rnd (2 * pi) \<Longrightarrow> is_Fin s \<Longrightarrow> angle_in_closed_range (fl_mod rnd s (2 * pi))"
  using py_mod_closed [of "2 * pi" rnd] pi_gt_zero by (cases s) simp_all

lemma fl_mod_half_open:
  "0 \<le> x \<Longrightarrow> angle_in_range (fl_mod rnd (Fin x) (2 * pi))"
  using py_mod_nonneg [of "2 * pi" x rnd] pi_gt_zero by simp

lemma electrical_dynamics_params:
  "m_params m' = m_params m \<Longrightarrow> electrical_dynamics m' = electrical_dynamics m"
  by (intro ext) (simp add: electrical_dynamics_def)

lemma update_state:
  "snd (PMSMModel_update solver rnd m vd vq lt) =
     (case solver (\<lambda>s t. electrical_dynamics m s t vd vq lt) (m_id m, m_iq m, m_wr m, m_theta_e m)
             [0, sample_time (m_params m)] of
        (s0, s1, s2, s3) \<Rightarrow>
          m\<lparr>m_id := s0, m_iq := s1, m_wr := s2, m_theta_e := fl_mod rnd s3 (2 * pi),
            m_load_torque := Fin lt\<rparr>)"
  by (simp add: PMSMModel_update_def Let_def split: prod.splits)

lemma update_angle_cases:
  assumes r: "rounds_within rnd (2 * pi)"
  shows "is_Fin (m_theta_e (snd (PMSMModel_update solver rnd m vd vq lt)))
           \<longrightarrow> angle_in_closed_range (m_theta_e (snd (PMSMModel_update solver rnd m vd vq lt)))"
proof -
  obtain s0 s1 s2 s3 where s:
    "solver (\<lambda>s t. electrical_dynamics m s t vd vq lt) (m_id m, m_iq m, m_wr m, m_theta_e m)
        [0, sample_time (m_params m)] = (s0, s1, s2, s3)"
    by (rule prod_cases4)
  have e: "m_theta_e (snd (PMSMModel_update solver rnd m vd vq lt)) = fl_mod rnd s3 (2 * pi)"
    by (simp add: update_state s)
  show ?thesis
    unfolding e fl_mod_is_Fin using fl_mod_closed [OF r] by blast
qed

lemma trace_closed_or_nonfinite:
  assumes r: "rounds_within rnd (2 * pi)"
  shows "list_all (\<lambda>m'. is_Fin (m_theta_e m') \<longrightarrow> angle_in_closed_range (m_theta_e m'))
           (PMSMModel_trace solver rnd m inputs)"
proof (induction inputs arbitrary: m)
  case Nil
  show ?case by simp
next
  case (Cons i inputs)
  obtain vd vq lt where i: "i = (vd, vq, lt)" by (cases i) auto
  show ?case
    using update_angle_cases [OF r, of solver m vd vq lt] Cons.IH
    by (simp add: i Let_def)
qed

lemma update_keeps:
  assumes k: "solver_keeps_finite solver m" and f: "fin_state m"
  shows "m_params (snd (PMSMModel_update solver rnd m vd vq lt)) = m_params m
       \<and> fin_state (snd (PMSMModel_update solver rnd m vd vq lt))"
proof -
  obtain a where sa: "m_id m = Fin a" using f is_Fin_D by (auto simp: fin_state_def)
  obtain b where sb: "m_iq m = Fin b" using f is_Fin_D by (auto simp: fin_state_def)
  obtain c where sc: "m_wr m = Fin c" using f is_Fin_D by (auto simp: fin_state_def)
  obtain d where sd: "m_theta_e m = Fin d" using f is_Fin_D by (auto simp: fin_state_def)
  note s = sa sb sc sd
  obtain s0 s1 s2 s3 where r:
    "solver (\<lambda>s t. electrical_dynamics m s t vd vq lt) (Fin a, Fin b, Fin c, Fin d)
        [0, sample_time (m_params m)] = (s0, s1, s2, s3)"
    by (rule prod_cases4)
  have "fin4 (solver (\<lambda>s t. electrical_dynamics m s t vd vq lt) (Fin a, Fin b, Fin c, Fin d)
        [0, sample_time (m_params m)])"
    using k unfolding solver_keeps_finite_def by blast
  then have "fin4 (s0, s1, s2, s3)" by (simp only: r)
  then have fs: "is_Fin s0" "is_Fin s1" "is_Fin s2" "is_Fin s3" by simp_all
  have u: "snd (PMSMModel_update solver rnd m vd vq lt)
         = m\<lparr>m_id := s0, m_iq := s1, m_wr := s2, m_theta_e := fl_mod rnd s3 (2 * pi),
             m_load_torque := Fin lt\<rparr>"
    by (simp add: update_state s r)
  show ?thesis using fs by (simp add: u fin_state_def fl_mod_is_Fin)
qed

lemma solver_keeps_finite_params:
  assumes "m_params m' = m_params m"
  shows "solver_keeps_finite solver m' = solver_keeps_finite solver m"
  unfolding solver_keeps_finite_def electrical_dynamics_params [OF assms] assms ..

lemma trace_closed:
  assumes r: "rounds_within rnd (2 * pi)"
    and "solver_keeps_finite solver m" and "fin_state m"
  shows "list_all (\<lambda>m'. angle_in_closed_range (m_theta_e m')) (PMSMModel_trace solver rnd m inputs)"
  using assms(2,3)
proof (induction inputs arbitrary: m)
  case Nil
  then show ?case by simp
next
  case (Cons i inputs)
  obtain vd vq lt where i: "i = (vd, vq, lt)" by (cases i) auto
  let ?m = "snd (PMSMModel_update solver rnd m vd vq lt)"
  have k: "m_params ?m = m_params m" "fin_state ?m"
    using update_keeps [OF Cons.prems] by auto
  have "is_Fin (m_theta_e ?m)" using k(2) by (simp add: fin_state_def)
  then have a: "angle_in_closed_range (m_theta_e ?m)"
    using update_angle_cases [OF r, of solver m vd vq lt] by blast
  have "solver_keeps_finite solver ?m"
    using Cons.prems(1) solver_keeps_finite_params [OF k(1)] by simp
  then have "list_all (\<lambda>m'. angle_in_closed_range (m_theta_e m')) (PMSMModel_trace solver rnd ?m inputs)"
    using k(2) by (rule Cons.IH)
  then show ?case using a by (simp add: i Let_def)
qed

lemma rounds_within_example: "rounds_within round_at_two_pi (2 * pi)"
  using pi_gt_zero by (simp add: rounds_within_def round_at_two_pi_def)


text \<open>
  Claim C4, as the code has it.  After each \<open>update\<close> call the stored \<open>theta_e\<close> is the
  integrator's final angle reduced by the float operator \<open>%\<close> with modulus \<open>2*pi\<close>: it is
  non-finite exactly when the integrator's angle is, and otherwise lies in the closed
  interval \<open>[0, 2*pi]\<close>; it is below \<open>2*pi\<close> when the integrated angle is non-negative,
  while a negative angle is wrapped by a rounded addition of \<open>2*pi\<close>.  Hence over any
  sequence of calls every stored angle is non-finite or in \<open>[0, 2*pi]\<close>, and all of them
  are in \<open>[0, 2*pi]\<close> when the integrator returns finite states from finite ones and the
  plant starts finite.
\<close>

theorem theta_e_after_update:
  assumes r: "rounds_within rnd (2 * pi)"
  shows "(case solver (\<lambda>s t. electrical_dynamics m s t vd vq lt)
                (m_id m, m_iq m, m_wr m, m_theta_e m) [0, sample_time (m_params m)] of
            (s0, s1, s2, s3) \<Rightarrow>
              m_theta_e (snd (PMSMModel_update solver rnd m vd vq lt)) = fl_mod rnd s3 (2 * pi)
              \<and> is_Fin (m_theta_e (snd (PMSMModel_update solver rnd m vd vq lt))) = is_Fin s3
              \<and> (is_Fin s3 \<longrightarrow>
                    angle_in_closed_range (m_theta_e (snd (PMSMModel_update solver rnd m vd vq lt))))
              \<and> (\<forall>x. s3 = Fin x \<and> 0 \<le> x \<longrightarrow>
                    angle_in_range (m_theta_e (snd (PMSMModel_update solver rnd m vd vq lt)))))
       \<and> list_all (\<lambda>m'. is_Fin (m_theta_e m') \<longrightarrow> angle_in_closed_range (m_theta_e m'))
            (PMSMModel_trace solver rnd m inputs)
       \<and> (solver_keeps_finite solver m \<and> fin_state m \<longrightarrow>
            list_all (\<lambda>m'. angle_in_closed_range (m_theta_e m'))
              (PMSMModel_trace solver rnd m inputs))"
proof -
  obtain s0 s1 s2 s3 where s:
    "solver (\<lambda>s t. electrical_dynamics m s t vd vq lt) (m_id m, m_iq m, m_wr m, m_theta_e m)
        [0, sample_time (m_params m)] = (s0, s1, s2, s3)"
    by (rule prod_cases4)
  have e: "m_theta_e (snd (PMSMModel_update solver rnd m vd vq lt)) = fl_mod rnd s3 (2 * pi)"
    by (simp add: update_state s)
  have a: "is_Fin s3 \<longrightarrow> angle_in_closed_range (fl_mod rnd s3 (2 * pi))"
    using fl_mod_closed [OF r] by blast
  have b: "\<forall>x. s3 = Fin x \<and> 0 \<le> x \<longrightarrow> angle_in_range (fl_mod rnd s3 (2 * pi))"
    using fl_mod_half_open by blast
  have one: "(case solver (\<lambda>s t. electrical_dynamics m s t vd vq lt)
                (m_id m, m_iq m, m_wr m, m_theta_e m) [0, sample_time (m_params m)] of
            (s0, s1, s2, s3) \<Rightarrow>
              m_theta_e (snd (PMSMModel_update solver rnd m vd vq lt)) = fl_mod rnd s3 (2 * pi)
              \<and> is_Fin (m_theta_e (snd (PMSMModel_update solver rnd m vd vq lt))) = is_Fin s3
              \<and> (is_Fin s3 \<longrightarrow>
                    angle_in_closed_range (m_theta_e (snd (PMSMModel_update solver rnd m vd vq lt))))
              \<and> (\<forall>x. s3 = Fin x \<and> 0 \<le> x \<longrightarrow>
                    angle_in_range (m_theta_e (snd (PMSMModel_update solver rnd m vd vq lt)))))"
    unfolding s e by (simp only: prod.case fl_mod_is_Fin) (use a b in blast)
  show ?thesis
    using one trace_closed_or_nonfinite [OF r, of solver m inputs]
      trace_closed [OF r, of solver m inputs]
    by blast
qed

theorem theta_e_after_update_witness:
  "rounds_within round_at_two_pi (2 * pi)
   \<and> solver_keeps_finite euler_step (PMSMModel_init example_params)
   \<and> fin_state (PMSMModel_init example_params)
   \<and> list_all (\<lambda>m'. angle_in_closed_range (m_theta_e m'))
        (PMSMModel_trace euler_step round_at_two_pi (PMSMModel_init example_params)
           [(0, 5, 0), (0, 5, 1)])"
proof -
  have h0: "rounds_within round_at_two_pi (2 * pi)" by (rule rounds_within_example)
  have h1: "solver_keeps_finite euler_step (PMSMModel_init example_params)"
    by (simp add: solver_keeps_finite_def euler_step_def electrical_dynamics_def
        PMSMModel_init_def reset_state_def example_params_def plus_fl_def times_fl_def
        minus_fl_def Let_def)
  have h2: "fin_state (PMSMModel_init example_params)"
    by (simp add: fin_state_def PMSMModel_init_def reset_state_def)
  from theta_e_after_update
         [OF h0, of euler_step "PMSMModel_init example_params" 0 5 0 "[(0, 5, 0), (0, 5, 1)]"]
       h0 h1 h2
  show ?thesis by blast
qed

text \<open>
  Claim C4 as stated fails in two ways, both with finite inputs from the plant at rest.
  When the integrator ends on the angle \<open>-4.998e-18\<close> (what a load torque of \<open>1e-12\<close>
  produces within one sample), the float sum \<open>-4.998e-18 + 2*pi\<close> rounds to \<open>2*pi\<close>, and
  the stored angle is \<open>2*pi\<close> itself, outside \<open>[0, 2*pi)\<close>.  When the integrator's result
  is not finite, the stored angle is \<open>nan\<close>, in no interval.
\<close>

theorem theta_e_not_in_half_open_range:
  "m_theta_e (snd (PMSMModel_update
       (\<lambda>f s ts. (Fin 0, Fin 0, Fin (- (1 / 10 ^ 13)), Fin (- (4998 / 10 ^ 21))))
       round_at_two_pi (PMSMModel_init example_params) 0 0 (1 / 10 ^ 12))) = Fin (2 * pi)
   \<and> \<not> angle_in_range (m_theta_e (snd (PMSMModel_update
       (\<lambda>f s ts. (Fin 0, Fin 0, Fin (- (1 / 10 ^ 13)), Fin (- (4998 / 10 ^ 21))))
       round_at_two_pi (PMSMModel_init example_params) 0 0 (1 / 10 ^ 12))))
   \<and> \<not> angle_in_range (m_theta_e (snd (PMSMModel_update
       (\<lambda>f s ts. (NonFin, NonFin, NonFin, NonFin))
       round_at_two_pi (PMSMModel_init example_params) 0 5 0)))"
proof -
  have p: "(0::real) < 2 * pi" using pi_gt_zero by simp
  have l: "- (2 * pi) < - (4998 / 10 ^ 21)" using pi_ge_two by simp
  have "py_mod round_at_two_pi (- (4998 / 10 ^ 21)) (2 * pi)
        = round_at_two_pi (- (4998 / 10 ^ 21) + 2 * pi)"
    by (rule py_mod_small_negative [OF p l]) simp
  also have "\<dots> = 2 * pi" by (simp add: round_at_two_pi_def)
  finally have w: "py_mod round_at_two_pi (- (4998 / 10 ^ 21)) (2 * pi) = 2 * pi" .
  have e: "m_theta_e (snd (PMSMModel_update
       (\<lambda>f s ts. (Fin 0, Fin 0, Fin (- (1 / 10 ^ 13)), Fin (- (4998 / 10 ^ 21))))
       round_at_two_pi (PMSMModel_init example_params) 0 0 (1 / 10 ^ 12))) = Fin (2 * pi)"
    using p w by (simp add: update_state)
  have n: "m_theta_e (snd (PMSMModel_update
       (\<lambda>f s ts. (NonFin, NonFin, NonFin, NonFin))
       round_at_two_pi (PMSMModel_init example_params) 0 5 0)) = NonFin"
    by (simp add: update_state)
  show ?thesis unfolding e n by simp
qed

text \<open>
  Claim C9, as the code has it.  \<open>update\<close> makes no finiteness check: whatever the
  integrator returns, the call reports no error, stores the integrator's \<open>id\<close>, \<open>iq\<close>,
  \<open>wr\<close> unchanged and the angle taken modulo \<open>2*pi\<close> (non-finite exactly when the
  integrator's angle is), and returns the same values in its telemetry; the stored state
  is what the next call hands to the integrator.
\<close>

theorem update_stores_solver_result:
  "(case solver (\<lambda>s t. electrical_dynamics m s t vd vq lt) (m_id m, m_iq m, m_wr m, m_theta_e m)
           [0, sample_time (m_params m)] of
      (s0, s1, s2, s3) \<Rightarrow>
        \<not> isl (fst (PMSMModel_update solver rnd m vd vq lt))
        \<and> snd (PMSMModel_update solver rnd m vd vq lt)
            = m\<lparr>m_id := s0, m_iq := s1, m_wr := s2, m_theta_e := fl_mod rnd s3 (2 * pi),
                m_load_torque := Fin lt\<rparr>
        \<and> out_id (projr (fst (PMSMModel_update solver rnd m vd vq lt))) = s0
        \<and> out_iq (projr (fst (PMSMModel_update solver rnd m vd vq lt))) = s1
        \<and> out_wr (projr (fst (PMSMModel_update solver rnd m vd vq lt))) = s2
        \<and> out_theta_e (projr (fst (PMSMModel_update solver rnd m vd vq lt)))
            = fl_mod rnd s3 (2 * pi)
        \<and> is_Fin (fl_mod rnd s3 (2 * pi)) = is_Fin s3)"
  by (simp add: fl_mod_is_Fin PMSMModel_update_def Let_def split: prod.splits)

text \<open>
  Claim C9 as stated fails: from the reset plant, when the integrator's result is not
  finite, \<open>update\<close> returns normally and the plant holds the non-finite state.
\<close>

theorem update_keeps_nonfinite_state:
  "\<not> isl (fst (PMSMModel_update (\<lambda>f s ts. (NonFin, NonFin, NonFin, NonFin)) (\<lambda>x. x)
                 (PMSMModel_init example_params) 0 5 0))
   \<and> m_id (snd (PMSMModel_update (\<lambda>f s ts. (NonFin, NonFin, NonFin, NonFin)) (\<lambda>x. x)
                 (PMSMModel_init example_params) 0 5 0)) = NonFin
   \<and> m_theta_e (snd (PMSMModel_update (\<lambda>f s ts. (NonFin, NonFin, NonFin, NonFin)) (\<lambda>x. x)
                 (PMSMModel_init example_params) 0 5 0)) = NonFin"
  by (simp add: PMSMModel_update_def Let_def)

lemma divide_times_self: "(n::real) \<noteq> 0 \<Longrightarrow> l / n * n = l"
  by simp

lemma scaled_magnitude:
  assumes l: "0 \<le> l" and g: "l < sqrt (x\<^sup>2 + y\<^sup>2)"
  shows "sqrt ((l / sqrt (x\<^sup>2 + y\<^sup>2) * x)\<^sup>2 + (l / sqrt (x\<^sup>2 + y\<^sup>2) * y)\<^sup>2) = l"
proof -
  let ?n = "sqrt (x\<^sup>2 + y\<^sup>2)"
  have n: "0 < ?n" using l g by linarith
  have "(l / ?n * x)\<^sup>2 + (l / ?n * y)\<^sup>2 = (l / ?n)\<^sup>2 * (x\<^sup>2 + y\<^sup>2)"
    by (simp only: power_mult_distrib distrib_left)
  then have "sqrt ((l / ?n * x)\<^sup>2 + (l / ?n * y)\<^sup>2) = \<bar>l / ?n\<bar> * ?n"
    by (simp add: real_sqrt_mult)
  also have "\<dots> = l / ?n * ?n" using l n by (simp only: abs_of_nonneg divide_nonneg_pos)
  also have "\<dots> = l" using n by (intro divide_times_self) linarith
  finally show ?thesis .
qed

lemma scale_pair:
  "n \<noteq> 0 \<Longrightarrow> (let scale = fl_div (Fin l) n in (Fin x * scale, Fin y * scale))
                = (Fin (l / n * x), Fin (l / n * y))"
  by (simp add: times_fl_def mult.commute)

lemma circular_clamp:
  assumes l: "0 \<le> l"
  shows "\<exists>k\<ge>0.
      (if sqrt (x\<^sup>2 + y\<^sup>2) > l
       then (let scale = fl_div (Fin l) (sqrt (x\<^sup>2 + y\<^sup>2)) in (Fin x * scale, Fin y * scale))
       else (Fin x, Fin y)) = (Fin (k * x), Fin (k * y))
      \<and> (if sqrt (x\<^sup>2 + y\<^sup>2) > l then sqrt ((k * x)\<^sup>2 + (k * y)\<^sup>2) = l else k = 1)"
proof (cases "sqrt (x\<^sup>2 + y\<^sup>2) > l")
  case True
  let ?n = "sqrt (x\<^sup>2 + y\<^sup>2)"
  have n: "0 < ?n" using l True by linarith
  have k: "0 \<le> l / ?n" using l n by simp
  have "(let scale = fl_div (Fin l) ?n in (Fin x * scale, Fin y * scale))
        = (Fin (l / ?n * x), Fin (l / ?n * y))"
    using n by (intro scale_pair) linarith
  then show ?thesis using True k scaled_magnitude [OF l True] by auto
next
  case False
  then show ?thesis by (intro exI [of _ 1]) simp
qed

text \<open>
  Claim C7.  With non-negative limits, \<open>apply_voltage_limits\<close> and
  \<open>apply_current_limits\<close> return a non-negative multiple \<open>k\<close> of the input vector; when
  the input magnitude exceeds the limit (\<open>dc_bus_voltage / sqrt 3\<close>, respectively
  \<open>max_current\<close>) the magnitude of the result equals the limit, and otherwise \<open>k = 1\<close>:
  the input is returned unchanged.
\<close>

theorem limits_preserve_direction:
  assumes "0 \<le> dc_bus_voltage (m_params m)" and "0 \<le> max_current (m_params m)"
  shows "(\<exists>k\<ge>0. apply_voltage_limits m x y = (Fin (k * x), Fin (k * y))
            \<and> (if sqrt (x\<^sup>2 + y\<^sup>2) > dc_bus_voltage (m_params m) / sqrt 3
                then sqrt ((k * x)\<^sup>2 + (k * y)\<^sup>2) = dc_bus_voltage (m_params m) / sqrt 3
                else k = 1))
       \<and> (\<exists>k\<ge>0. apply_current_limits m x y = (Fin (k * x), Fin (k * y))
            \<and> (if sqrt (x\<^sup>2 + y\<^sup>2) > max_current (m_params m)
                then sqrt ((k * x)\<^sup>2 + (k * y)\<^sup>2) = max_current (m_params m)
                else k = 1))"
proof -
  have "0 \<le> dc_bus_voltage (m_params m) / sqrt 3" using assms(1) by simp
  from circular_clamp [OF this, of x y] circular_clamp [OF assms(2), of x y]
  show ?thesis unfolding apply_voltage_limits_def apply_current_limits_def Let_def by blast
qed


theorem limits_preserve_direction_witness:
  "0 \<le> dc_bus_voltage (m_params (PMSMModel_init example_params))
   \<and> 0 \<le> max_current (m_params (PMSMModel_init example_params))
   \<and> (\<exists>k\<ge>0. apply_voltage_limits (PMSMModel_init example_params) 30 40
                 = (Fin (k * 30), Fin (k * 40))
            \<and> (if sqrt (30\<^sup>2 + 40\<^sup>2) > dc_bus_voltage (m_params (PMSMModel_init example_params)) / sqrt 3
                then sqrt ((k * 30)\<^sup>2 + (k * 40)\<^sup>2)
                       = dc_bus_voltage (m_params (PMSMModel_init example_params)) / sqrt 3
                else k = 1))"
proof -
  have h1: "0 \<le> dc_bus_voltage (m_params (PMSMModel_init example_params))"
    by (simp add: PMSMModel_init_def reset_state_def example_params_def)
  have h2: "0 \<le> max_current (m_params (PMSMModel_init example_params))"
    by (simp add: PMSMModel_init_def reset_state_def example_params_def)
  from limits_preserve_direction [OF h1 h2, of 30 40] h1 h2 show ?thesis by blast
qed


subsection \<open>Flux weakening: the speed-threshold policy\<close>

text \<open>
  Claim C6.  The speed-threshold policy: at or below \<open>base_speed\<close> the method returns
  exactly \<open>0\<close>, clears the flux-weakening flag and current and resets the PI state
  (integral and previous error zero); above \<open>base_speed\<close> (with \<open>Ld \<noteq> 0\<close>) it returns
  \<open>-(flux_linkage + Lq*iq_ref)/Ld\<close> clipped to \<open>[-max_current, 0]\<close> and stores it.  With
  \<open>base_speed = 100\<close>, \<open>wr = 150\<close>, \<open>iq_ref = 5\<close> and positive \<open>Ld\<close>, \<open>max_current\<close> and
  \<open>flux_linkage + Lq*5\<close> the returned current is that clipped value and is negative; at
  \<open>wr = 50\<close> the method returns exactly \<open>0\<close>.
\<close>

theorem speed_based_flux_weakening_policy:
  "(w \<le> base_speed c \<longrightarrow>
      speed_based_flux_weakening c w iq_ref
        = (Inr 0, c\<lparr>in_flux_weakening := False, id_fw := 0,
                     fw_controller := PIController_reset (fw_controller c)\<rparr>)
      \<and> integral (fw_controller (snd (speed_based_flux_weakening c w iq_ref))) = 0
      \<and> prev_error (fw_controller (snd (speed_based_flux_weakening c w iq_ref))) = 0)
   \<and> (w > base_speed c \<and> Ld (fw_params c) \<noteq> 0 \<and> 0 \<le> max_current (fw_params c) \<longrightarrow>
      fst (speed_based_flux_weakening c w iq_ref)
        = Inr (max (- max_current (fw_params c))
                 (min 0 (- (flux_linkage (fw_params c) + Lq (fw_params c) * iq_ref)
                           / Ld (fw_params c))))
      \<and> id_fw (snd (speed_based_flux_weakening c w iq_ref))
        = max (- max_current (fw_params c))
                 (min 0 (- (flux_linkage (fw_params c) + Lq (fw_params c) * iq_ref)
                           / Ld (fw_params c)))
      \<and> in_flux_weakening (snd (speed_based_flux_weakening c w iq_ref)))
   \<and> (base_speed c = 100 \<and> 0 < Ld (fw_params c) \<and> 0 < max_current (fw_params c)
        \<and> 0 < flux_linkage (fw_params c) + Lq (fw_params c) * 5 \<longrightarrow>
      fst (speed_based_flux_weakening c 150 5)
        = Inr (max (- max_current (fw_params c))
                 (min 0 (- (flux_linkage (fw_params c) + Lq (fw_params c) * 5)
                           / Ld (fw_params c))))
      \<and> max (- max_current (fw_params c))
                 (min 0 (- (flux_linkage (fw_params c) + Lq (fw_params c) * 5)
                           / Ld (fw_params c))) < 0
      \<and> fst (speed_based_flux_weakening c 50 5) = Inr 0)"
proof -
  have a: "w \<le> base_speed c \<Longrightarrow>
      speed_based_flux_weakening c w iq_ref
        = (Inr 0, c\<lparr>in_flux_weakening := False, id_fw := 0,
                     fw_controller := PIController_reset (fw_controller c)\<rparr>)"
    by (simp add: speed_based_flux_weakening_def Let_def)
  have cl: "0 \<le> m \<Longrightarrow> np_clip v (- m) 0 = max (- m) (min 0 v)" for m v
    by (simp add: np_clip_def max_def min_def)
  have b: "w > base_speed c \<Longrightarrow> Ld (fw_params c) \<noteq> 0 \<Longrightarrow> 0 \<le> max_current (fw_params c) \<Longrightarrow>
      speed_based_flux_weakening c w iq_ref
        = (Inr (max (- max_current (fw_params c))
                 (min 0 (- (flux_linkage (fw_params c) + Lq (fw_params c) * iq_ref)
                           / Ld (fw_params c)))),
           c\<lparr>in_flux_weakening := True,
             id_fw := max (- max_current (fw_params c))
                 (min 0 (- (flux_linkage (fw_params c) + Lq (fw_params c) * iq_ref)
                           / Ld (fw_params c)))\<rparr>)" for w iq_ref
    by (simp add: speed_based_flux_weakening_def Let_def cl)
  have n: "0 < Ld (fw_params c) \<Longrightarrow> 0 < max_current (fw_params c)
        \<Longrightarrow> 0 < flux_linkage (fw_params c) + Lq (fw_params c) * 5 \<Longrightarrow>
      max (- max_current (fw_params c))
                 (min 0 (- (flux_linkage (fw_params c) + Lq (fw_params c) * 5)
                           / Ld (fw_params c))) < 0"
  proof -
    assume l: "0 < Ld (fw_params c)" and m: "0 < max_current (fw_params c)"
      and f: "0 < flux_linkage (fw_params c) + Lq (fw_params c) * 5"
    have "- (flux_linkage (fw_params c) + Lq (fw_params c) * 5) / Ld (fw_params c) < 0"
      using l f by (simp add: divide_neg_pos)
    then show ?thesis using m by (simp add: max_def min_def)
  qed
  have s1: "base_speed c = 100 \<Longrightarrow> 0 < Ld (fw_params c) \<Longrightarrow> 0 < max_current (fw_params c) \<Longrightarrow>
      fst (speed_based_flux_weakening c 150 5)
        = Inr (max (- max_current (fw_params c))
                 (min 0 (- (flux_linkage (fw_params c) + Lq (fw_params c) * 5)
                           / Ld (fw_params c))))"
    using b [of 150 5] by simp
  have s2: "base_speed c = 100 \<Longrightarrow> fst (speed_based_flux_weakening c 50 5) = Inr 0"
    by (simp add: speed_based_flux_weakening_def Let_def)
  show ?thesis
    using a b [of w iq_ref] n s1 s2 by (simp add: PIController_reset_def)
qed

theorem speed_based_flux_weakening_policy_witness:
  "base_speed ((FluxWeakeningController_init example_params)\<lparr>base_speed := 100\<rparr>) = 100
   \<and> 0 < Ld (fw_params ((FluxWeakeningController_init example_params)\<lparr>base_speed := 100\<rparr>))
   \<and> 0 < max_current (fw_params ((FluxWeakeningController_init example_params)\<lparr>base_speed := 100\<rparr>))
   \<and> fst (speed_based_flux_weakening
          ((FluxWeakeningController_init example_params)\<lparr>base_speed := 100\<rparr>) 150 5) = Inr (-20)
   \<and> fst (speed_based_flux_weakening
          ((FluxWeakeningController_init example_params)\<lparr>base_speed := 100\<rparr>) 50 5) = Inr 0"
  using speed_based_flux_weakening_policy
          [of 50 "(FluxWeakeningController_init example_params)\<lparr>base_speed := 100\<rparr>" 5]
  by (simp add: FluxWeakeningController_init_def FluxWeakeningController_reset_def
        example_params_def)


subsection \<open>Recursive least squares: the residual after one update\<close>

lemma length_vecmat [simp]: "length (vecmat v P) = length v"
  by (simp add: vecmat_def)

lemma nth_vecmat: "j < length v \<Longrightarrow> vecmat v P ! j = (\<Sum>i<length v. v ! i * P ! i ! j)"
  by (simp add: vecmat_def)

lemma length_matvec [simp]: "length (matvec P v) = length P"
  by (simp add: matvec_def)

lemma nth_matvec: "i < length P \<Longrightarrow> matvec P v ! i = dot (P ! i) v"
  by (simp add: matvec_def)

lemma well_shaped_row:
  "well_shaped est phi \<Longrightarrow> i < length phi \<Longrightarrow> length (est_P est ! i) = length phi"
  by (simp add: well_shaped_def list_all_length)

lemma dot_vecmat:
  assumes w: "well_shaped est phi"
  shows "dot (vecmat phi (est_P est)) phi = dot phi (matvec (est_P est) phi)"
proof -
  let ?n = "length phi" and ?P = "est_P est"
  have lp: "length ?P = ?n" using w by (simp add: well_shaped_def)
  have "dot (vecmat phi ?P) phi = (\<Sum>j<?n. (\<Sum>i<?n. phi ! i * ?P ! i ! j) * phi ! j)"
    by (simp add: dot_def nth_vecmat)
  also have "\<dots> = (\<Sum>j<?n. \<Sum>i<?n. phi ! i * (?P ! i ! j * phi ! j))"
    by (simp add: sum_distrib_right mult.assoc)
  also have "\<dots> = (\<Sum>i<?n. \<Sum>j<?n. phi ! i * (?P ! i ! j * phi ! j))"
    by (rule sum.swap)
  also have "\<dots> = (\<Sum>i<?n. phi ! i * (\<Sum>j<?n. ?P ! i ! j * phi ! j))"
    by (simp add: sum_distrib_left)
  also have "\<dots> = (\<Sum>i<?n. phi ! i * matvec ?P phi ! i)"
    using w lp by (intro sum.cong refl) (simp add: nth_matvec dot_def well_shaped_row)
  also have "\<dots> = dot phi (matvec ?P phi)" by (simp add: dot_def)
  finally show ?thesis .
qed

lemma length_rls_gain:
  "well_shaped est phi \<Longrightarrow> length (rls_gain est phi) = length phi"
  by (simp add: rls_gain_def Let_def well_shaped_def)

lemma dot_rls_gain:
  assumes w: "well_shaped est phi"
  shows "dot phi (rls_gain est phi) =
           (if \<bar>rls_denominator est phi\<bar> > 1 / 10 ^ 10
            then (rls_denominator est phi - est_lambda est) / rls_denominator est phi
            else 0)"
proof (cases "\<bar>rls_denominator est phi\<bar> > 1 / 10 ^ 10")
  case True
  let ?d = "rls_denominator est phi"
  have lp: "length (est_P est) = length phi" using w by (simp add: well_shaped_def)
  have "dot phi (rls_gain est phi) = (\<Sum>i<length phi. phi ! i * (matvec (est_P est) phi ! i / ?d))"
    using True lp by (simp add: rls_gain_def dot_def)
  also have "\<dots> = dot phi (matvec (est_P est) phi) / ?d"
    by (simp add: dot_def sum_divide_distrib)
  also have "\<dots> = (?d - est_lambda est) / ?d"
    by (simp add: rls_denominator_def dot_vecmat [OF w])
  finally show ?thesis using True by simp
next
  case False
  have "(\<Sum>i<length phi. phi ! i * replicate (length (est_theta est)) 0 ! i) = 0"
    using w by (intro sum.neutral) (simp add: well_shaped_def)
  then show ?thesis using False by (simp add: rls_gain_def dot_def)
qed

lemma sum_affine:
  fixes a b c :: "nat \<Rightarrow> real"
  shows "(\<Sum>i<n. a i * (b i + c i * e)) = (\<Sum>i<n. a i * b i) + e * (\<Sum>i<n. a i * c i)"
  by (simp add: sum.distrib sum_distrib_left algebra_simps)

lemma theta_new_dot:
  assumes w: "well_shaped est phi"
  shows "dot phi (est_theta (fst (rls_update est phi y)))
       = dot phi (est_theta est) + (y - dot phi (est_theta est)) * dot phi (rls_gain est phi)"
proof -
  let ?K = "rls_gain est phi" and ?e = "y - dot phi (est_theta est)"
  have lt: "length (est_theta est) = length phi" using w by (simp add: well_shaped_def)
  have lk: "length ?K = length phi" by (rule length_rls_gain [OF w])
  have "dot phi (est_theta (fst (rls_update est phi y)))
        = (\<Sum>i<length phi. phi ! i * (est_theta est ! i + ?K ! i * ?e))"
    using lt lk by (simp add: rls_update_def Let_def dot_def)
  also have "\<dots> = (\<Sum>i<length phi. phi ! i * est_theta est ! i)
                   + ?e * (\<Sum>i<length phi. phi ! i * ?K ! i)"
    by (rule sum_affine)
  finally show ?thesis by (simp add: dot_def mult.commute)
qed

lemma rls_residual:
  assumes w: "well_shaped est phi"
  shows "y - dot phi (est_theta (fst (rls_update est phi y)))
       = (if \<bar>rls_denominator est phi\<bar> > 1 / 10 ^ 10
          then (y - dot phi (est_theta est)) * est_lambda est / rls_denominator est phi
          else y - dot phi (est_theta est))"
proof (cases "\<bar>rls_denominator est phi\<bar> > 1 / 10 ^ 10")
  case True
  let ?d = "rls_denominator est phi" and ?e = "y - dot phi (est_theta est)"
  have d: "?d \<noteq> 0" using True by auto
  have "y - dot phi (est_theta (fst (rls_update est phi y)))
        = ?e - ?e * ((?d - est_lambda est) / ?d)"
    using True by (simp add: theta_new_dot [OF w] dot_rls_gain [OF w])
  also have "\<dots> = ?e * est_lambda est / ?d"
    using d by (simp add: field_simps)
  finally show ?thesis using True by simp
next
  case False
  then show ?thesis by (simp add: theta_new_dot [OF w] dot_rls_gain [OF w])
qed

lemma ratio_strict:
  fixes e l d :: real
  assumes l: "0 < l" and d: "d \<noteq> 0"
  shows "\<bar>e * l / d\<bar> < \<bar>e\<bar> \<longleftrightarrow> e \<noteq> 0 \<and> l < \<bar>d\<bar>"
proof -
  have ad: "0 < \<bar>d\<bar>" using d by simp
  have A: "\<bar>e * l / d\<bar> = \<bar>e\<bar> * (l / \<bar>d\<bar>)" using l by (simp add: abs_mult)
  have B: "\<bar>e\<bar> * (l / \<bar>d\<bar>) < \<bar>e\<bar> \<longleftrightarrow> e \<noteq> 0 \<and> l / \<bar>d\<bar> < 1"
  proof (cases "e = 0")
    case True then show ?thesis by simp
  next
    case False
    then have "0 < \<bar>e\<bar>" by simp
    then have "\<bar>e\<bar> * (l / \<bar>d\<bar>) < \<bar>e\<bar> * 1 \<longleftrightarrow> l / \<bar>d\<bar> < 1"
      by (rule mult_less_cancel_left_pos)
    then show ?thesis using False by simp
  qed
  have C: "l / \<bar>d\<bar> < 1 \<longleftrightarrow> l < \<bar>d\<bar>" using ad by (simp add: pos_divide_less_eq)
  show ?thesis unfolding A B C ..
qed


text \<open>
  Claim C3, as the code has it.  For a well-shaped estimator with \<open>lambda > 0\<close>, one
  \<open>rls_update\<close> multiplies the residual \<open>y - phi^T theta\<close> by \<open>lambda / denominator\<close> when
  \<open>|denominator| > 1e-10\<close> and leaves it unchanged otherwise.  So the absolute residual
  is strictly reduced exactly when the prior residual is non-zero,
  \<open>|denominator| > 1e-10\<close> and \<open>|denominator| > lambda\<close>; this is the case whenever
  \<open>phi^T P phi > 0\<close>, the prior residual is non-zero and \<open>|denominator| > 1e-10\<close>.  When
  \<open>|denominator| \<le> 1e-10\<close> the gain \<open>K\<close> is zero and \<open>theta\<close> is unchanged.  The method
  returns the prior residual as its error.
\<close>

theorem rls_update_residual:
  assumes w: "well_shaped est phi" and l: "0 < est_lambda est"
  shows "y - dot phi (est_theta (fst (rls_update est phi y)))
           = (if \<bar>rls_denominator est phi\<bar> > 1 / 10 ^ 10
              then (y - dot phi (est_theta est)) * est_lambda est / rls_denominator est phi
              else y - dot phi (est_theta est))
       \<and> (\<bar>y - dot phi (est_theta (fst (rls_update est phi y)))\<bar> < \<bar>y - dot phi (est_theta est)\<bar>
            \<longleftrightarrow> y - dot phi (est_theta est) \<noteq> 0
                \<and> \<bar>rls_denominator est phi\<bar> > 1 / 10 ^ 10
                \<and> est_lambda est < \<bar>rls_denominator est phi\<bar>)
       \<and> (0 < dot (vecmat phi (est_P est)) phi \<and> y - dot phi (est_theta est) \<noteq> 0
             \<and> \<bar>rls_denominator est phi\<bar> > 1 / 10 ^ 10
            \<longrightarrow> \<bar>y - dot phi (est_theta (fst (rls_update est phi y)))\<bar>
                  < \<bar>y - dot phi (est_theta est)\<bar>)
       \<and> (\<not> \<bar>rls_denominator est phi\<bar> > 1 / 10 ^ 10
            \<longrightarrow> rls_gain est phi = replicate (length (est_theta est)) 0
                \<and> est_theta (fst (rls_update est phi y)) = est_theta est)
       \<and> snd (rls_update est phi y) = y - dot phi (est_theta est)"
proof -
  let ?d = "rls_denominator est phi" and ?e = "y - dot phi (est_theta est)"
  let ?e' = "y - dot phi (est_theta (fst (rls_update est phi y)))"
  have r: "?e' = (if \<bar>?d\<bar> > 1 / 10 ^ 10 then ?e * est_lambda est / ?d else ?e)"
    by (rule rls_residual [OF w])
  have s: "\<bar>?e'\<bar> < \<bar>?e\<bar> \<longleftrightarrow> ?e \<noteq> 0 \<and> \<bar>?d\<bar> > 1 / 10 ^ 10 \<and> est_lambda est < \<bar>?d\<bar>"
  proof (cases "\<bar>?d\<bar> > 1 / 10 ^ 10")
    case True
    then have "?d \<noteq> 0" by auto
    from ratio_strict [OF l this, of ?e] True r show ?thesis by simp
  next
    case False
    then show ?thesis using r by simp
  qed
  have p: "\<bar>?e'\<bar> < \<bar>?e\<bar>"
    if "0 < dot (vecmat phi (est_P est)) phi" "?e \<noteq> 0" "\<bar>?d\<bar> > 1 / 10 ^ 10"
  proof -
    have "est_lambda est < ?d" using that(1) by (simp add: rls_denominator_def)
    then have "est_lambda est < \<bar>?d\<bar>" by simp
    then show ?thesis using s that by blast
  qed
  have z: "rls_gain est phi = replicate (length (est_theta est)) 0
           \<and> est_theta (fst (rls_update est phi y)) = est_theta est"
    if n: "\<not> \<bar>?d\<bar> > 1 / 10 ^ 10"
  proof -
    have g: "rls_gain est phi = replicate (length (est_theta est)) 0"
      using n by (simp add: rls_gain_def)
    have "map2 (\<lambda>t k. t + k * ?e) (est_theta est) (replicate (length (est_theta est)) 0)
          = est_theta est"
      by (rule nth_equalityI) simp_all
    then show ?thesis using g by (simp add: rls_update_def Let_def)
  qed
  have e: "snd (rls_update est phi y) = ?e" by (simp add: rls_update_def Let_def)
  from r s p z e show ?thesis by blast
qed

theorem rls_update_residual_witness:
  "well_shaped (Rs_estimator (MotorParameterIdentification_init example_params)) [2]
   \<and> 0 < est_lambda (Rs_estimator (MotorParameterIdentification_init example_params))
   \<and> \<bar>4 - dot [2] (est_theta (fst (rls_update
          (Rs_estimator (MotorParameterIdentification_init example_params)) [2] 4)))\<bar>
       < \<bar>4 - dot [2] (est_theta (Rs_estimator (MotorParameterIdentification_init example_params)))\<bar>"
proof -
  let ?E = "Rs_estimator (MotorParameterIdentification_init example_params)"
  have h1: "well_shaped ?E [2]"
    by (simp add: well_shaped_def MotorParameterIdentification_init_def)
  have h2: "0 < est_lambda ?E"
    by (simp add: MotorParameterIdentification_init_def)
  have q: "0 < dot (vecmat [2] (est_P ?E)) [2]"
    by (simp add: dot_def vecmat_def MotorParameterIdentification_init_def)
  have e: "4 - dot [2] (est_theta ?E) \<noteq> 0"
    by (simp add: dot_def MotorParameterIdentification_init_def example_params_def)
  have d: "\<bar>rls_denominator ?E [2]\<bar> > 1 / 10 ^ 10"
    by (simp add: rls_denominator_def dot_def vecmat_def MotorParameterIdentification_init_def)
  from rls_update_residual [OF h1 h2, of 4] q e d h1 h2 show ?thesis by blast
qed

text \<open>
  Claim C3 as stated fails on a sample that already fits: with \<open>theta = [0.5]\<close>,
  \<open>P = [[1000]]\<close>, \<open>lambda = 0.99\<close>, \<open>phi = [2]\<close> and \<open>y = 1\<close> the denominator is
  \<open>4000.99\<close>, the residual is \<open>0\<close> before and after, and \<open>0 < 0\<close> is false.  It fails as well
  for the zero regressor \<open>phi = [0]\<close> (denominator \<open>0.99\<close>, residual unchanged).
\<close>

theorem rls_update_not_strict:
  "0 < est_lambda (Rs_estimator (MotorParameterIdentification_init example_params))
   \<and> est_lambda (Rs_estimator (MotorParameterIdentification_init example_params)) \<le> 1
   \<and> \<bar>rls_denominator (Rs_estimator (MotorParameterIdentification_init example_params)) [2]\<bar>
        \<ge> 1 / 10 ^ 10
   \<and> \<not> \<bar>1 - dot [2] (est_theta (fst (rls_update
            (Rs_estimator (MotorParameterIdentification_init example_params)) [2] 1)))\<bar>
        < \<bar>1 - dot [2] (est_theta (Rs_estimator (MotorParameterIdentification_init example_params)))\<bar>
   \<and> \<bar>rls_denominator (Rs_estimator (MotorParameterIdentification_init example_params)) [0]\<bar>
        \<ge> 1 / 10 ^ 10
   \<and> \<not> \<bar>1 - dot [0] (est_theta (fst (rls_update
            (Rs_estimator (MotorParameterIdentification_init example_params)) [0] 1)))\<bar>
        < \<bar>1 - dot [0] (est_theta (Rs_estimator (MotorParameterIdentification_init example_params)))\<bar>"
  by (simp add: MotorParameterIdentification_init_def example_params_def rls_update_def
        rls_gain_def rls_denominator_def dot_def vecmat_def matvec_def Let_def)


subsection \<open>Resistance identification: which axis is regressed\<close>

text \<open>
  Claim C10, as the code has it.  \<open>identify_resistance\<close> changes nothing unless
  \<open>|wr|\<close> is below \<open>min_speed_for_identification\<close>.  Below it, the d axis has priority:
  whenever \<open>|id| > 0.1\<close> the update regresses \<open>vd\<close> against \<open>id\<close>, whatever \<open>iq\<close> and \<open>vq\<close>
  are; the q axis (\<open>vq\<close> against \<open>iq\<close>) is used only when \<open>|id| \<le> 0.1 < |iq|\<close>, and then
  the result does not depend on \<open>vd\<close> nor on which \<open>id\<close> within the guard was measured; with
  both currents within the guard nothing is updated.  For a one-parameter estimator
  \<open>theta = [r]\<close>, \<open>P = [[p]]\<close> and a selected pair \<open>(x, v)\<close> with
  \<open>|lambda + x*p*x| > 1e-10\<close>, the identified resistance becomes
  \<open>r + p*x / (lambda + x*p*x) * (v - x*r)\<close>.
\<close>

theorem identify_resistance_axis:
  "(\<not> \<bar>w\<bar> < min_speed_for_identification s \<longrightarrow>
      identify_resistance s vd i_d vq i_q w = (Inr (), s))
   \<and> (\<bar>w\<bar> < min_speed_for_identification s \<and> \<bar>i_d\<bar> > 0.1 \<longrightarrow>
      identify_resistance s vd i_d vq i_q w
        = store_resistance s (fst (rls_update (Rs_estimator s) [i_d] vd))
      \<and> identify_resistance s vd i_d vq i_q w = identify_resistance s vd i_d vq' i_q' w)
   \<and> (\<bar>w\<bar> < min_speed_for_identification s \<and> \<not> \<bar>i_d\<bar> > 0.1 \<and> \<bar>i_q\<bar> > 0.1 \<longrightarrow>
      identify_resistance s vd i_d vq i_q w
        = store_resistance s (fst (rls_update (Rs_estimator s) [i_q] vq))
      \<and> (\<not> \<bar>i_d'\<bar> > 0.1 \<longrightarrow>
           identify_resistance s vd i_d vq i_q w = identify_resistance s vd' i_d' vq i_q w))
   \<and> (\<bar>w\<bar> < min_speed_for_identification s \<and> \<not> \<bar>i_d\<bar> > 0.1 \<and> \<not> \<bar>i_q\<bar> > 0.1 \<longrightarrow>
      identify_resistance s vd i_d vq i_q w = (Inr (), s))
   \<and> (est_theta (Rs_estimator s) = [r] \<and> est_P (Rs_estimator s) = [[p]]
        \<and> \<bar>est_lambda (Rs_estimator s) + x * p * x\<bar> > 1 / 10 ^ 10 \<longrightarrow>
      Rs_identified (snd (store_resistance s (fst (rls_update (Rs_estimator s) [x] v))))
        = r + p * x / (est_lambda (Rs_estimator s) + x * p * x) * (v - x * r))"
proof -
  have f: "Rs_identified (snd (store_resistance s (fst (rls_update (Rs_estimator s) [x] v))))
        = r + p * x / (est_lambda (Rs_estimator s) + x * p * x) * (v - x * r)"
    if "est_theta (Rs_estimator s) = [r]" "est_P (Rs_estimator s) = [[p]]"
       "\<bar>est_lambda (Rs_estimator s) + x * p * x\<bar> > 1 / 10 ^ 10"
    using that
    by (simp add: store_resistance_def rls_update_def rls_gain_def rls_denominator_def
          dot_def vecmat_def matvec_def Let_def)
  show ?thesis
    using f by (simp add: identify_resistance_def Let_def split: prod.splits)
qed

theorem identify_resistance_axis_witness:
  "\<bar>0\<bar> < min_speed_for_identification (MotorParameterIdentification_init example_params)
   \<and> \<bar>1 / 5\<bar> > (0.1 :: real)
   \<and> identify_resistance (MotorParameterIdentification_init example_params) 1 (1 / 5) 10 5 0
       = store_resistance (MotorParameterIdentification_init example_params)
           (fst (rls_update (Rs_estimator (MotorParameterIdentification_init example_params))
                   [1 / 5] 1))"
proof -
  have h1: "\<bar>0\<bar> < min_speed_for_identification (MotorParameterIdentification_init example_params)"
    by (simp add: MotorParameterIdentification_init_def)
  have h2: "\<bar>1 / 5\<bar> > (0.1 :: real)" by simp
  from identify_resistance_axis
         [of 0 "MotorParameterIdentification_init example_params" 1 "1 / 5" 10 5]
       h1 h2
  show ?thesis by blast
qed

text \<open>
  Claim C10 as stated fails: near stall with \<open>id = 0.2\<close>, \<open>iq = 5\<close> the q axis carries the
  larger current, yet the update is the d-axis regression of \<open>vd = 1\<close> against \<open>id\<close>, and
  the resistance it identifies differs from the one the q-axis regression of \<open>vq = 10\<close>
  against \<open>iq\<close> would give.
\<close>

theorem identify_resistance_prefers_d_axis:
  "\<bar>1 / 5\<bar> < \<bar>5 :: real\<bar>
   \<and> identify_resistance (MotorParameterIdentification_init example_params) 1 (1 / 5) 10 5 0
       = store_resistance (MotorParameterIdentification_init example_params)
           (fst (rls_update (Rs_estimator (MotorParameterIdentification_init example_params))
                   [1 / 5] 1))
   \<and> Rs_identified (snd (identify_resistance
           (MotorParameterIdentification_init example_params) 1 (1 / 5) 10 5 0))
       \<noteq> Rs_identified (snd (store_resistance (MotorParameterIdentification_init example_params)
           (fst (rls_update (Rs_estimator (MotorParameterIdentification_init example_params))
                   [5] 10))))"
  by (simp add: identify_resistance_def store_resistance_def rls_update_def rls_gain_def
        rls_denominator_def dot_def vecmat_def matvec_def Let_def
        MotorParameterIdentification_init_def example_params_def)


subsection \<open>Control-mode selection and the disturbance-rejection update\<close>

lemma observer_update_params:
  "do_params (snd (DisturbanceObserver_update ob Te w l)) = do_params ob"
  by (simp add: DisturbanceObserver_update_def Let_def)

lemma observer_update_ok:
  "J (do_params ob) \<noteq> 0 \<Longrightarrow> \<not> isl (fst (DisturbanceObserver_update ob Te w l))"
  by (simp add: DisturbanceObserver_update_def Let_def)

lemma metrics_keep:
  "instance_dict (update_performance_metrics s) = instance_dict s
   \<and> control_mode (update_performance_metrics s) = control_mode s
   \<and> disturbance_observer (update_performance_metrics s) = disturbance_observer s"
  by (simp add: update_performance_metrics_def Let_def)

lemma finish_update_keeps:
  "instance_dict (snd (finish_update s a b c)) = instance_dict s
   \<and> control_mode (snd (finish_update s a b c)) = control_mode s
   \<and> disturbance_observer (snd (finish_update s a b c)) = disturbance_observer s
   \<and> \<not> isl (fst (finish_update s a b c))"
  by (simp add: finish_update_def Let_def metrics_keep)

lemma feedforward_absent:
  "instance_dict s = Map.empty \<Longrightarrow> feedforward_compensation s d = Inl AttributeError"
  by (simp add: feedforward_compensation_def drc_getattr_def)

lemma update_keeps_frame:
  "instance_dict (snd (DisturbanceRejectionController_update s Te wa wr ia qa ir qr))
      = instance_dict s
   \<and> control_mode (snd (DisturbanceRejectionController_update s Te wa wr ia qa ir qr))
      = control_mode s
   \<and> do_params (disturbance_observer
        (snd (DisturbanceRejectionController_update s Te wa wr ia qa ir qr)))
      = do_params (disturbance_observer s)"
proof -
  obtain res ob where o: "DisturbanceObserver_update (disturbance_observer s) Te wa 0 = (res, ob)"
    by (cases "DisturbanceObserver_update (disturbance_observer s) Te wa 0")
  have p: "do_params ob = do_params (disturbance_observer s)"
    using observer_update_params [of "disturbance_observer s" Te wa 0] o by simp
  show ?thesis
    unfolding DisturbanceRejectionController_update_def Let_def o
    using p
    by (simp add: finish_update_keeps split: sum.splits prod.splits)
qed


lemma reachable_invariant:
  assumes "drc_reachable cfg s"
  shows "instance_dict s = Map.empty
       \<and> control_mode s \<in> set [''observer'', ''adaptive'', ''robust'', ''combined'']
       \<and> do_params (disturbance_observer s) = cfg"
  using assms
proof (induction rule: drc_reachable.induct)
  case reach_init
  show ?case
    by (simp add: DisturbanceRejectionController_init_def DisturbanceObserver_init_def
          DisturbanceObserver_reset_def)
next
  case (reach_reset s)
  then show ?case
    by (simp add: DisturbanceRejectionController_reset_def DisturbanceObserver_reset_def)
next
  case (reach_mode s mode)
  then show ?case by (simp add: set_control_mode_def)
next
  case (reach_update s Te wr_actual wr_ref id_actual iq_actual id_ref iq_ref)
  then show ?case by (simp only: update_keeps_frame)
qed

lemma update_by_mode:
  assumes d: "instance_dict s = Map.empty" and j: "J (do_params (disturbance_observer s)) \<noteq> 0"
  shows "(control_mode s = ''observer'' \<or> control_mode s = ''combined'' \<longrightarrow>
            fst (DisturbanceRejectionController_update s Te wa wr ia qa ir qr) = Inl AttributeError)
       \<and> (control_mode s = ''adaptive'' \<or> control_mode s = ''robust'' \<longrightarrow>
            \<not> isl (fst (DisturbanceRejectionController_update s Te wa wr ia qa ir qr)))"
proof -
  obtain res ob where o: "DisturbanceObserver_update (disturbance_observer s) Te wa 0 = (res, ob)"
    by (cases "DisturbanceObserver_update (disturbance_observer s) Te wa 0")
  have "\<not> isl res" using observer_update_ok [OF j, of Te wa 0] o by simp
  then obtain dt where r: "res = Inr dt" by (cases res) simp_all
  have f: "feedforward_compensation (s\<lparr>disturbance_observer := ob,
              speed_error_buffer := sb, torque_buffer := tb, disturbance_buffer := db\<rparr>) dt
           = Inl AttributeError" for sb tb db
    using d by (simp add: feedforward_absent)
  show ?thesis
    unfolding DisturbanceRejectionController_update_def Let_def o r
    by (simp add: f finish_update_keeps split: prod.splits)
qed

text \<open>
  Claim C1.  Take any controller object the class can produce from a configuration with
  non-zero inertia \<open>J\<close> (the observer step, which runs first, divides by \<open>J\<close>).  Its control
  mode is one of the four names, \<open>'observer'\<close> after construction.  In mode \<open>'observer'\<close>
  or \<open>'combined'\<close>, \<open>update\<close> raises \<open>AttributeError\<close> instead of returning, whatever its
  arguments: the feed-forward term reads \<open>self.poles\<close>, which no method assigns.  In mode
  \<open>'adaptive'\<close> or \<open>'robust'\<close> it returns the telemetry bundle.
\<close>

theorem update_raises_in_observer_and_combined:
  assumes r: "drc_reachable cfg s" and j: "J cfg \<noteq> 0"
  shows "(control_mode s = ''observer'' \<or> control_mode s = ''combined'' \<longrightarrow>
            fst (DisturbanceRejectionController_update s Te wr_actual wr_ref id_actual iq_actual
                   id_ref iq_ref) = Inl AttributeError)
       \<and> (control_mode s = ''adaptive'' \<or> control_mode s = ''robust'' \<longrightarrow>
            \<not> isl (fst (DisturbanceRejectionController_update s Te wr_actual wr_ref id_actual
                          iq_actual id_ref iq_ref)))
       \<and> control_mode s \<in> set [''observer'', ''adaptive'', ''robust'', ''combined'']
       \<and> control_mode (DisturbanceRejectionController_init cfg) = ''observer''
       \<and> instance_dict s ''poles'' = None \<and> instance_dict s ''flux_linkage'' = None"
proof -
  have i: "instance_dict s = Map.empty"
    "control_mode s \<in> set [''observer'', ''adaptive'', ''robust'', ''combined'']"
    "do_params (disturbance_observer s) = cfg"
    using reachable_invariant [OF r] by auto
  have j': "J (do_params (disturbance_observer s)) \<noteq> 0" using j i(3) by simp
  have c: "control_mode (DisturbanceRejectionController_init cfg) = ''observer''"
    by (simp add: DisturbanceRejectionController_init_def)
  from update_by_mode [OF i(1) j'] i(1) i(2) c show ?thesis by simp
qed

theorem update_raises_in_observer_and_combined_witness:
  "drc_reachable example_params (DisturbanceRejectionController_init example_params)
   \<and> J example_params \<noteq> 0
   \<and> fst (DisturbanceRejectionController_update
            (DisturbanceRejectionController_init example_params) 1 0 10 0 0 0 1)
       = Inl AttributeError
   \<and> \<not> isl (fst (DisturbanceRejectionController_update
            (snd (set_control_mode (DisturbanceRejectionController_init example_params)
                    ''adaptive'')) 1 0 10 0 0 0 1))"
proof -
  let ?s = "DisturbanceRejectionController_init example_params"
  have h1: "drc_reachable example_params ?s" by (rule reach_init)
  have h1': "drc_reachable example_params (snd (set_control_mode ?s ''adaptive''))"
    by (rule reach_mode [OF h1])
  have h2: "J example_params \<noteq> 0" by (simp add: example_params_def)
  have m: "control_mode ?s = ''observer''"
    by (simp add: DisturbanceRejectionController_init_def)
  have m': "control_mode (snd (set_control_mode ?s ''adaptive'')) = ''adaptive''"
    by (simp add: set_control_mode_def)
  from update_raises_in_observer_and_combined [OF h1 h2, of 1 0 10 0 0 0 1]
       update_raises_in_observer_and_combined [OF h1' h2, of 1 0 10 0 0 0 1] m m' h1 h2
  show ?thesis by simp
qed

text \<open>
  Claim C8, as the code has it.  \<open>set_control_mode\<close> raises \<open>ValueError\<close> for every mode
  outside the four names and leaves the controller unchanged, and stores a mode among them.
  \<open>FluxWeakeningController.update\<close> does not reject a method outside \<open>'voltage'\<close>,
  \<open>'speed'\<close>, \<open>'lookup'\<close>: it returns \<open>0.0\<close> and leaves the controller unchanged.
\<close>

theorem unknown_selectors:
  "(mode \<notin> set [''observer'', ''adaptive'', ''robust'', ''combined'']
      \<longrightarrow> set_control_mode s mode = (Inl ValueError, s))
   \<and> (mode \<in> set [''observer'', ''adaptive'', ''robust'', ''combined'']
      \<longrightarrow> set_control_mode s mode = (Inr (), s\<lparr>control_mode := mode\<rparr>))
   \<and> (method \<notin> set [''voltage'', ''speed'', ''lookup'']
      \<longrightarrow> FluxWeakeningController_update c w vd vq iq_ref method = (Inr (Num 0), c))"
  by (simp add: set_control_mode_def FluxWeakeningController_update_def)

theorem unknown_selectors_witness:
  "''turbo'' \<notin> set [''observer'', ''adaptive'', ''robust'', ''combined'']
   \<and> set_control_mode (DisturbanceRejectionController_init example_params) ''turbo''
       = (Inl ValueError, DisturbanceRejectionController_init example_params)
   \<and> ''table'' \<notin> set [''voltage'', ''speed'', ''lookup'']
   \<and> FluxWeakeningController_update (FluxWeakeningController_init example_params)
         150 1 1 5 ''table''
       = (Inr (Num 0), FluxWeakeningController_init example_params)"
  using unknown_selectors
          [of "''turbo''" "DisturbanceRejectionController_init example_params" "''table''"
              "FluxWeakeningController_init example_params" 150 1 1 5]
  by simp

text \<open>
  Claim C8 as stated fails: called with the unrecognised method \<open>'table'\<close>, the
  flux-weakening \<open>update\<close> raises nothing and produces the output \<open>0.0\<close>.
\<close>

theorem flux_weakening_update_accepts_unknown_method:
  "''table'' \<notin> set [''voltage'', ''speed'', ''lookup'']
   \<and> \<not> isl (fst (FluxWeakeningController_update (FluxWeakeningController_init example_params)
                   150 1 1 5 ''table''))
   \<and> fst (FluxWeakeningController_update (FluxWeakeningController_init example_params)
            150 1 1 5 ''table'') = Inr (Num 0)"
  by (simp add: FluxWeakeningController_update_def)

end
